theory Spec2Isabelle
  imports Complex_Main
begin

section \<open>Python values, errors and list operations\<close>

text \<open>
  The simulator is Python over numpy arrays. Exceptions are values of the sum type
  \<open>error + 'a\<close> (\<open>Inl\<close> the exception). Floating-point numbers are modelled as reals:
  the properties below only use comparisons, assignments and the constants the code
  writes, never rounding.
\<close>

datatype error = IndexError | ValueError | TypeError | NotFound

definition then_do :: "error + 'a \<Rightarrow> ('a \<Rightarrow> error + 'b) \<Rightarrow> error + 'b" where
  "then_do r f = (case r of Inl e \<Rightarrow> Inl e | Inr x \<Rightarrow> f x)"

text \<open>
  Python indexing \<open>xs[i]\<close>: a negative index counts from the end, an index outside
  \<open>-len \<le> i < len\<close> raises IndexError.
\<close>

definition py_index :: "nat \<Rightarrow> int \<Rightarrow> error + nat" where
  "py_index n i =
     (if 0 \<le> i \<and> i < int n then Inr (nat i)
      else if i < 0 \<and> - int n \<le> i then Inr (nat (int n + i))
      else Inl IndexError)"

definition py_get :: "'a list \<Rightarrow> int \<Rightarrow> error + 'a" where
  "py_get xs i = then_do (py_index (length xs) i) (\<lambda>k. Inr (xs ! k))"

definition py_set :: "'a list \<Rightarrow> int \<Rightarrow> 'a \<Rightarrow> error + 'a list" where
  "py_set xs i v = then_do (py_index (length xs) i) (\<lambda>k. Inr (xs[k := v]))"

text \<open>\<open>del xs[i]\<close> and \<open>np.delete(xs, i)\<close>: one entry removed, IndexError out of range.\<close>

definition py_del :: "'a list \<Rightarrow> int \<Rightarrow> error + 'a list" where
  "py_del xs i = then_do (py_index (length xs) i) (\<lambda>k. Inr (take k xs @ drop (Suc k) xs))"

text \<open>
  \<open>xs.insert(i, v)\<close> never raises: a negative index counts from the end and the
  position is clamped to \<open>0 .. len\<close>.
\<close>

definition py_insert :: "'a list \<Rightarrow> int \<Rightarrow> 'a \<Rightarrow> 'a list" where
  "py_insert xs i v =
     (let n = int (length xs);
          j = (if i < 0 then max 0 (n + i) else min n i)
      in take (nat j) xs @ v # drop (nat j) xs)"

text \<open>\<open>xs.pop()\<close>: the list without its last entry, IndexError on the empty list.\<close>

definition py_pop :: "'a list \<Rightarrow> error + 'a list" where
  "py_pop xs = (if xs = [] then Inl IndexError else Inr (butlast xs))"

text \<open>\<open>xs[-1]\<close>.\<close>

definition py_last :: "'a list \<Rightarrow> error + 'a" where
  "py_last xs = (if xs = [] then Inl IndexError else Inr (last xs))"

subsection \<open>Decimal strings\<close>

text \<open>
  \<open>int(s)\<close> on a string of ASCII decimal digits, ValueError otherwise (the empty string
  included). Python also accepts a sign, surrounding blanks and underscores; the model
  covers digit strings, which is what a runway number is.
\<close>

definition is_digit :: "char \<Rightarrow> bool" where
  "is_digit c = (48 \<le> (of_char c :: nat) \<and> (of_char c :: nat) \<le> 57)"

fun digits_value :: "string \<Rightarrow> nat \<Rightarrow> nat option" where
  "digits_value [] acc = Some acc"
| "digits_value (c # cs) acc =
     (if is_digit c then digits_value cs (10 * acc + (of_char c - 48)) else None)"

definition py_int :: "string \<Rightarrow> error + int" where
  "py_int s =
     (if s = [] then Inl ValueError
      else case digits_value s 0 of None \<Rightarrow> Inl ValueError | Some n \<Rightarrow> Inr (int n))"

definition digit_char :: "nat \<Rightarrow> char" where
  "digit_char d = char_of (48 + d)"

fun str_nat :: "nat \<Rightarrow> string" where
  "str_nat n = (if n < 10 then [digit_char n] else str_nat (n div 10) @ [digit_char (n mod 10)])"

declare str_nat.simps [simp del]

text \<open>\<open>str(i)\<close> for an integer.\<close>

definition py_str :: "int \<Rightarrow> string" where
  "py_str i = (if i < 0 then CHR ''-'' # str_nat (nat (- i)) else str_nat (nat i))"

text \<open>\<open>s.zfill(w)\<close>: zeros on the left up to width \<open>w\<close>, after a leading sign.\<close>

definition zfill :: "nat \<Rightarrow> string \<Rightarrow> string" where
  "zfill w s =
     (case s of
        c # cs \<Rightarrow>
          (if c = CHR ''-'' \<or> c = CHR ''+''
           then c # replicate (w - length s) (CHR ''0'') @ cs
           else replicate (w - length s) (CHR ''0'') @ s)
      | [] \<Rightarrow> replicate w (CHR ''0''))"

section \<open>The opposite runway of \<open>set_flight_plan\<close>\<close>

text \<open>
  autopilot.py, lines 316 to 323:
  \<^verbatim>\<open>opp_runway = str(int(((int(arrival_runway[2:4]) * 10 + 180) % 360) / 10)).zfill(2)\<close>,
  then the last character of \<open>arrival_runway\<close> decides the suffix. The slice \<open>[2:4]\<close> is
  \<open>take 2 (drop 2 s)\<close>. The remainder is a non-negative multiple of ten, so the float
  division followed by \<open>int\<close> is the integer quotient.
\<close>

definition opposite_runway :: "string \<Rightarrow> error + string" where
  "opposite_runway arrival_runway =
     then_do (py_int (take 2 (drop 2 arrival_runway))) (\<lambda>n.
       let opp_runway = zfill 2 (py_str (((n * 10 + 180) mod 360) div 10)) in
       then_do (py_last arrival_runway) (\<lambda>rwy_letter.
         Inr (if rwy_letter = CHR ''L'' then opp_runway @ ''R''
              else if rwy_letter = CHR ''R'' then opp_runway @ ''L''
              else if rwy_letter = CHR ''C'' then opp_runway @ ''C''
              else opp_runway)))"

text \<open>A runway identifier as the flight plan carries it: two characters, the two-digit number, the suffix.\<close>

definition runway_ident :: "string \<Rightarrow> nat \<Rightarrow> string \<Rightarrow> string" where
  "runway_ident pre n suffix = pre @ zfill 2 (py_str (int n)) @ suffix"


section \<open>Enumerations and the modules the autopilot calls\<close>

text \<open>
  \<open>utils/enums.py\<close>, \<open>core/navigation.py\<close>, \<open>utils/calculation.py\<close> and
  \<open>utils/unit_conversion.py\<close> are not part of the sources at hand. The enumerations
  carry the members the code uses; the functions of \<open>Nav\<close>, \<open>Cal\<close> and \<open>Unit\<close> are
  parameters, collected in records (the facade takes \<open>Unit.kts2mps\<close> as a parameter of
  its own). Every \<open>Nav\<close> function may raise.
\<close>

text \<open>Airport codes, runway identifiers and procedure names are strings.\<close>

type_synonym icao = string

type_synonym runway_id = string

type_synonym proc_name = string

datatype APLateralMode = HEADING | LNAV

datatype APThrottleMode = AUTO | SPEED

datatype APSpeedMode = CONSTANT_MACH | CONSTANT_CAS | ACCELERATE | DECELERATE

datatype SpeedMode = CAS | MACH

datatype VerticalMode = LEVEL | CLIMB | DESCENT

text \<open>
  \<open>self.speed_mode\<close> and \<open>traffic.vertical_mode\<close> are arrays of numbers (\<open>np.zeros\<close>,
  \<open>np.append(..., 0.0)\<close>) into which \<open>Autopilot.update\<close> writes members of \<open>APSpeedMode\<close> and
  \<open>VerticalMode\<close> with \<open>np.select\<close>, whose default is 0. The number a member stands for
  is a parameter.
\<close>

record enum_numbers =
  ap_speed_mode_number :: "APSpeedMode \<Rightarrow> real"
  vertical_mode_number :: "VerticalMode \<Rightarrow> real"

text \<open>The conversions of \<open>Unit\<close> that \<open>Autopilot.update\<close> calls, applied entry by entry.\<close>

record unit_conversion =
  unit_kts2mps :: "real \<Rightarrow> real"
  unit_mps2kts :: "real \<Rightarrow> real"
  unit_nm2m :: "real \<Rightarrow> real"

text \<open>The five lists \<open>Nav.get_procedure\<close> returns.\<close>

record procedure =
  waypoint :: "string list"
  alt_restriction_type :: "string list"
  alt_restriction :: "real list"
  speed_restriction_type :: "string list"
  speed_restriction :: "real list"

text \<open>An entry of a holding definition, a heterogeneous Python list.\<close>

datatype py_value = PyStr string | PyNum real

record nav =
  get_runway_coord :: "string \<Rightarrow> string \<Rightarrow> error + (real \<times> real \<times> real)"
  get_procedure :: "string \<Rightarrow> string \<Rightarrow> string \<Rightarrow> string option \<Rightarrow> string option \<Rightarrow> error + procedure"
  get_wp_coord :: "string \<Rightarrow> real \<Rightarrow> real \<Rightarrow> error + (real \<times> real)"
  get_holding_procedure :: "string \<Rightarrow> string \<Rightarrow> error + py_value list"

section \<open>The autopilot state\<close>

text \<open>
  \<open>Autopilot.__init__\<close>: one array or list per field, one entry per aircraft. The cached
  distance \<open>self.dist\<close> is the field \<open>dist_ap\<close>.
\<close>

record autopilot =
  alt :: "real list"
  heading :: "real list"
  track_angle :: "real list"
  ap_rate_of_turn :: "real list"
  cas :: "real list"
  mach :: "real list"
  vs :: "real list"
  fpa :: "real list"
  lat :: "real list"
  long :: "real list"
  lat_next :: "real list"
  long_next :: "real list"
  lat_prev :: "real list"
  long_prev :: "real list"
  hv_next_wp :: "bool list"
  dist_ap :: "real list"
  flight_plan_index :: "int list"
  flight_plan_enroute :: "string list list"
  flight_plan_name :: "string list list"
  flight_plan_lat :: "real list list"
  flight_plan_long :: "real list list"
  flight_plan_target_alt :: "real list list"
  flight_plan_target_speed :: "real list list"
  procedure_speed :: "real list"
  speed_mode :: "real list"
  auto_throttle_mode :: "APThrottleMode list"
  vertical_mode :: "real list"
  lateral_mode :: "APLateralMode list"
  expedite_descent :: "bool list"
  departure_airport :: "string list"
  departure_runway :: "string list"
  sid :: "string list"
  arrival_airport :: "string list"
  arrival_runway :: "string list"
  star :: "string list"
  approach :: "string list"
  cruise_alt :: "real list"
  flight_plan_updated :: "bool list"
  holding :: "bool list"
  holding_round :: "real list"
  holding_info :: "py_value list list"

definition init_autopilot :: autopilot where
  "init_autopilot =
     \<lparr>alt = [], heading = [], track_angle = [], ap_rate_of_turn = [], cas = [], mach = [],
      vs = [], fpa = [], lat = [], long = [], lat_next = [], long_next = [], lat_prev = [],
      long_prev = [], hv_next_wp = [], dist_ap = [], flight_plan_index = [],
      flight_plan_enroute = [], flight_plan_name = [], flight_plan_lat = [],
      flight_plan_long = [], flight_plan_target_alt = [], flight_plan_target_speed = [],
      procedure_speed = [], speed_mode = [], auto_throttle_mode = [], vertical_mode = [],
      lateral_mode = [], expedite_descent = [], departure_airport = [], departure_runway = [],
      sid = [], arrival_airport = [], arrival_runway = [], star = [], approach = [],
      cruise_alt = [], flight_plan_updated = [], holding = [], holding_round = [],
      holding_info = []\<rparr>"

text \<open>The lengths of the per-aircraft arrays and lists, in the order of \<open>__init__\<close>.\<close>

definition array_lengths :: "autopilot \<Rightarrow> nat list" where
  "array_lengths ap =
     [length (alt ap), length (heading ap), length (track_angle ap),
      length (ap_rate_of_turn ap), length (cas ap), length (mach ap), length (vs ap),
      length (fpa ap), length (lat ap), length (long ap), length (lat_next ap),
      length (long_next ap), length (lat_prev ap), length (long_prev ap),
      length (hv_next_wp ap), length (dist_ap ap), length (flight_plan_index ap),
      length (flight_plan_enroute ap), length (flight_plan_name ap),
      length (flight_plan_lat ap), length (flight_plan_long ap),
      length (flight_plan_target_alt ap), length (flight_plan_target_speed ap),
      length (procedure_speed ap), length (speed_mode ap), length (auto_throttle_mode ap),
      length (vertical_mode ap), length (lateral_mode ap), length (expedite_descent ap),
      length (departure_airport ap), length (departure_runway ap), length (sid ap),
      length (arrival_airport ap), length (arrival_runway ap), length (star ap),
      length (approach ap), length (cruise_alt ap), length (flight_plan_updated ap),
      length (holding ap), length (holding_round ap), length (holding_info ap)]"

section \<open>Adding and deleting aircraft\<close>

text \<open>
  autopilot.py, lines 136 to 177: \<open>add_aircraft\<close> appends one entry to every array
  and list, then (line 179) assembles the flight plan of the new, last slot.
\<close>

definition append_slot ::
  "autopilot \<Rightarrow> real \<Rightarrow> real \<Rightarrow> real \<Rightarrow> real \<Rightarrow> real \<Rightarrow> icao \<Rightarrow> runway_id \<Rightarrow> proc_name \<Rightarrow> icao \<Rightarrow> runway_id \<Rightarrow>
   proc_name \<Rightarrow> proc_name \<Rightarrow> real \<Rightarrow> autopilot" where
  "append_slot ap lat0 long0 alt0 heading0 cas0 dep_airport dep_runway sid0 arr_airport
     arr_runway star0 approach0 cruise =
     \<lparr>alt = alt ap @ [alt0],
      heading = heading ap @ [heading0],
      track_angle = track_angle ap @ [heading0],
      ap_rate_of_turn = ap_rate_of_turn ap @ [0],
      cas = cas ap @ [cas0],
      mach = mach ap @ [0],
      vs = vs ap @ [0],
      fpa = fpa ap @ [0],
      lat = lat ap @ [lat0],
      long = long ap @ [long0],
      lat_next = lat_next ap @ [0],
      long_next = long_next ap @ [0],
      lat_prev = lat_prev ap @ [0],
      long_prev = long_prev ap @ [0],
      hv_next_wp = hv_next_wp ap @ [False],
      dist_ap = dist_ap ap @ [0],
      flight_plan_index = flight_plan_index ap @ [0],
      flight_plan_enroute = flight_plan_enroute ap @ [[]],
      flight_plan_name = flight_plan_name ap @ [[]],
      flight_plan_lat = flight_plan_lat ap @ [[]],
      flight_plan_long = flight_plan_long ap @ [[]],
      flight_plan_target_alt = flight_plan_target_alt ap @ [[]],
      flight_plan_target_speed = flight_plan_target_speed ap @ [[]],
      procedure_speed = procedure_speed ap @ [0],
      speed_mode = speed_mode ap @ [0],
      auto_throttle_mode = auto_throttle_mode ap @ [SPEED],
      vertical_mode = vertical_mode ap @ [0],
      lateral_mode = lateral_mode ap @ [HEADING],
      expedite_descent = expedite_descent ap @ [False],
      departure_airport = departure_airport ap @ [dep_airport],
      departure_runway = departure_runway ap @ [dep_runway],
      sid = sid ap @ [sid0],
      arrival_airport = arrival_airport ap @ [arr_airport],
      arrival_runway = arrival_runway ap @ [arr_runway],
      star = star ap @ [star0],
      approach = approach ap @ [approach0],
      cruise_alt = cruise_alt ap @ [cruise],
      flight_plan_updated = flight_plan_updated ap @ [True],
      holding = holding ap @ [False],
      holding_round = holding_round ap @ [0],
      holding_info = holding_info ap @ [[]]\<rparr>"

text \<open>
  autopilot.py, lines 364 to 404: \<open>del_aircraft\<close> removes the entry at \<open>index\<close> from the
  arrays (\<open>np.delete\<close>) and lists (\<open>del\<close>) it names, in the order of the source. Each
  removal raises IndexError when \<open>index\<close> is out of range for that array. The source
  has no statement for \<open>self.cruise_alt\<close>, so the field keeps its value.
\<close>

definition in_range :: "'a list \<Rightarrow> int \<Rightarrow> bool" where
  "in_range xs i = (- int (length xs) \<le> i \<and> i < int (length xs))"

definition del_at :: "'a list \<Rightarrow> int \<Rightarrow> 'a list" where
  "del_at xs i = (case py_del xs i of Inr ys \<Rightarrow> ys | Inl e \<Rightarrow> xs)"

definition del_aircraft :: "autopilot \<Rightarrow> int \<Rightarrow> error + autopilot" where
  "del_aircraft ap index =
     (if in_range (alt ap) index \<and> in_range (heading ap) index \<and>
         in_range (track_angle ap) index \<and> in_range (ap_rate_of_turn ap) index \<and>
         in_range (cas ap) index \<and> in_range (mach ap) index \<and> in_range (vs ap) index \<and>
         in_range (fpa ap) index \<and> in_range (lat ap) index \<and> in_range (long ap) index \<and>
         in_range (lat_next ap) index \<and> in_range (long_next ap) index \<and>
         in_range (lat_prev ap) index \<and> in_range (long_prev ap) index \<and>
         in_range (hv_next_wp ap) index \<and> in_range (dist_ap ap) index \<and>
         in_range (flight_plan_index ap) index \<and> in_range (flight_plan_enroute ap) index \<and>
         in_range (flight_plan_name ap) index \<and> in_range (flight_plan_lat ap) index \<and>
         in_range (flight_plan_long ap) index \<and> in_range (flight_plan_target_alt ap) index \<and>
         in_range (flight_plan_target_speed ap) index \<and> in_range (procedure_speed ap) index \<and>
         in_range (speed_mode ap) index \<and> in_range (auto_throttle_mode ap) index \<and>
         in_range (vertical_mode ap) index \<and> in_range (lateral_mode ap) index \<and>
         in_range (expedite_descent ap) index \<and> in_range (holding ap) index \<and>
         in_range (holding_round ap) index \<and> in_range (holding_info ap) index \<and>
         in_range (departure_airport ap) index \<and> in_range (departure_runway ap) index \<and>
         in_range (sid ap) index \<and> in_range (arrival_airport ap) index \<and>
         in_range (arrival_runway ap) index \<and> in_range (star ap) index \<and>
         in_range (approach ap) index \<and> in_range (flight_plan_updated ap) index
      then Inr
        \<lparr>alt = del_at (alt ap) index,
         heading = del_at (heading ap) index,
         track_angle = del_at (track_angle ap) index,
         ap_rate_of_turn = del_at (ap_rate_of_turn ap) index,
         cas = del_at (cas ap) index,
         mach = del_at (mach ap) index,
         vs = del_at (vs ap) index,
         fpa = del_at (fpa ap) index,
         lat = del_at (lat ap) index,
         long = del_at (long ap) index,
         lat_next = del_at (lat_next ap) index,
         long_next = del_at (long_next ap) index,
         lat_prev = del_at (lat_prev ap) index,
         long_prev = del_at (long_prev ap) index,
         hv_next_wp = del_at (hv_next_wp ap) index,
         dist_ap = del_at (dist_ap ap) index,
         flight_plan_index = del_at (flight_plan_index ap) index,
         flight_plan_enroute = del_at (flight_plan_enroute ap) index,
         flight_plan_name = del_at (flight_plan_name ap) index,
         flight_plan_lat = del_at (flight_plan_lat ap) index,
         flight_plan_long = del_at (flight_plan_long ap) index,
         flight_plan_target_alt = del_at (flight_plan_target_alt ap) index,
         flight_plan_target_speed = del_at (flight_plan_target_speed ap) index,
         procedure_speed = del_at (procedure_speed ap) index,
         speed_mode = del_at (speed_mode ap) index,
         auto_throttle_mode = del_at (auto_throttle_mode ap) index,
         vertical_mode = del_at (vertical_mode ap) index,
         lateral_mode = del_at (lateral_mode ap) index,
         expedite_descent = del_at (expedite_descent ap) index,
         departure_airport = del_at (departure_airport ap) index,
         departure_runway = del_at (departure_runway ap) index,
         sid = del_at (sid ap) index,
         arrival_airport = del_at (arrival_airport ap) index,
         arrival_runway = del_at (arrival_runway ap) index,
         star = del_at (star ap) index,
         approach = del_at (approach ap) index,
         cruise_alt = cruise_alt ap,
         flight_plan_updated = del_at (flight_plan_updated ap) index,
         holding = del_at (holding ap) index,
         holding_round = del_at (holding_round ap) index,
         holding_info = del_at (holding_info ap) index\<rparr>
      else Inl IndexError)"

section \<open>Flight-plan assembly\<close>

text \<open>
  \<open>Autopilot.set_flight_plan\<close> (autopilot.py, lines 182 to 351) mutates the lists of
  slot \<open>index\<close> statement by statement. Each phase below is a run of statements of the
  source; a phase returns the updated state or the first exception. A statement
  \<open>self.f[index].m(...)\<close> reads the list at \<open>index\<close>, changes it and stores it back.
\<close>

definition upd_at :: "'a list list \<Rightarrow> int \<Rightarrow> ('a list \<Rightarrow> error + 'a list) \<Rightarrow> error + 'a list list" where
  "upd_at xss i f = then_do (py_get xss i) (\<lambda>xs. then_do (f xs) (\<lambda>ys. py_set xss i ys))"

text \<open>Lines 187 to 205: the bookkeeping fields are stored, the plan lists emptied.\<close>

definition fp_reset ::
  "autopilot \<Rightarrow> int \<Rightarrow> icao \<Rightarrow> runway_id \<Rightarrow> proc_name \<Rightarrow> icao \<Rightarrow> runway_id \<Rightarrow>
   proc_name \<Rightarrow> proc_name \<Rightarrow>
   string list \<Rightarrow> int \<Rightarrow> real \<Rightarrow> error + autopilot" where
  "fp_reset ap index dep_airport dep_runway sid0 arr_airport arr_runway star0 approach0
     fplan fp_index cruise =
     then_do (py_set (departure_airport ap) index dep_airport) (\<lambda>l1.
     then_do (py_set (departure_runway ap) index dep_runway) (\<lambda>l2.
     then_do (py_set (sid ap) index sid0) (\<lambda>l3.
     then_do (py_set (arrival_airport ap) index arr_airport) (\<lambda>l4.
     then_do (py_set (arrival_runway ap) index arr_runway) (\<lambda>l5.
     then_do (py_set (star ap) index star0) (\<lambda>l6.
     then_do (py_set (approach ap) index approach0) (\<lambda>l7.
     then_do (py_set (cruise_alt ap) index cruise) (\<lambda>l8.
     then_do (py_set (flight_plan_enroute ap) index fplan) (\<lambda>l9.
     then_do (py_set (flight_plan_name ap) index []) (\<lambda>l10.
     then_do (py_set (flight_plan_lat ap) index []) (\<lambda>l11.
     then_do (py_set (flight_plan_long ap) index []) (\<lambda>l12.
     then_do (py_set (flight_plan_target_alt ap) index []) (\<lambda>l13.
     then_do (py_set (flight_plan_target_speed ap) index []) (\<lambda>l14.
     then_do (py_set (flight_plan_index ap) index (fp_index + 1)) (\<lambda>l15.
     then_do (py_set (flight_plan_updated ap) index True) (\<lambda>l16.
       Inr (ap\<lparr>departure_airport := l1, departure_runway := l2, sid := l3,
                arrival_airport := l4, arrival_runway := l5, star := l6, approach := l7,
                cruise_alt := l8, flight_plan_enroute := l9, flight_plan_name := l10,
                flight_plan_lat := l11, flight_plan_long := l12,
                flight_plan_target_alt := l13, flight_plan_target_speed := l14,
                flight_plan_index := l15, flight_plan_updated := l16\<rparr>)))))))))))))))))"

text \<open>The three assignments that follow every appended segment (lines 217 to 219 and alike).\<close>

definition engage_lnav :: "autopilot \<Rightarrow> int \<Rightarrow> error + autopilot" where
  "engage_lnav ap index =
     then_do (py_set (hv_next_wp ap) index True) (\<lambda>hv.
     then_do (py_set (lateral_mode ap) index LNAV) (\<lambda>lm.
     then_do (py_set (auto_throttle_mode ap) index AUTO) (\<lambda>tm.
       Inr (ap\<lparr>hv_next_wp := hv, lateral_mode := lm, auto_throttle_mode := tm\<rparr>))))"

text \<open>\<open>extend\<close> on the name, altitude and speed lists, in this order.\<close>

definition extend_plan :: "autopilot \<Rightarrow> int \<Rightarrow> string list \<Rightarrow> real list \<Rightarrow> real list \<Rightarrow> error + autopilot" where
  "extend_plan ap index ws alts speeds =
     then_do (upd_at (flight_plan_name ap) index (\<lambda>xs. Inr (xs @ ws))) (\<lambda>nm.
     then_do (upd_at (flight_plan_target_alt ap) index (\<lambda>xs. Inr (xs @ alts))) (\<lambda>al.
     then_do (upd_at (flight_plan_target_speed ap) index (\<lambda>xs. Inr (xs @ speeds))) (\<lambda>sp.
       Inr (ap\<lparr>flight_plan_name := nm, flight_plan_target_alt := al,
                flight_plan_target_speed := sp\<rparr>))))"

text \<open>\<open>pop\<close> on the name, altitude and speed lists, in this order.\<close>

definition pop_plan :: "autopilot \<Rightarrow> int \<Rightarrow> error + autopilot" where
  "pop_plan ap index =
     then_do (upd_at (flight_plan_name ap) index py_pop) (\<lambda>nm.
     then_do (upd_at (flight_plan_target_alt ap) index py_pop) (\<lambda>al.
     then_do (upd_at (flight_plan_target_speed ap) index py_pop) (\<lambda>sp.
       Inr (ap\<lparr>flight_plan_name := nm, flight_plan_target_alt := al,
                flight_plan_target_speed := sp\<rparr>))))"

text \<open>Lines 209 to 219: the SID.\<close>

definition fp_add_sid :: "nav \<Rightarrow> autopilot \<Rightarrow> int \<Rightarrow> icao \<Rightarrow> runway_id \<Rightarrow> proc_name \<Rightarrow> error + autopilot" where
  "fp_add_sid nv ap index dep_airport dep_runway sid0 =
     (if sid0 \<noteq> [] then
        then_do (get_procedure nv dep_airport dep_runway sid0 None None) (\<lambda>p.
          if length (waypoint p) > 0 then
            then_do (extend_plan ap index (waypoint p) (alt_restriction p) (speed_restriction p))
              (\<lambda>ap1. engage_lnav ap1 index)
          else Inr ap)
      else Inr ap)"

text \<open>
  Lines 222 to 230: the enroute waypoints. The altitude list is extended only when
  \<open>cruise_alt > -1\<close>; the speed list always, with the sentinel \<open>-1\<close>.
\<close>

definition fp_add_enroute :: "autopilot \<Rightarrow> int \<Rightarrow> string list \<Rightarrow> real \<Rightarrow> error + autopilot" where
  "fp_add_enroute ap index fplan cruise =
     (if fplan \<noteq> [] then
        then_do (upd_at (flight_plan_name ap) index (\<lambda>xs. Inr (xs @ fplan))) (\<lambda>nm.
        then_do (if cruise > - 1
                 then upd_at (flight_plan_target_alt ap) index (\<lambda>xs. Inr (xs @ map (\<lambda>_. cruise) fplan))
                 else Inr (flight_plan_target_alt ap)) (\<lambda>al.
        then_do (upd_at (flight_plan_target_speed ap) index (\<lambda>xs. Inr (xs @ map (\<lambda>_. - 1) fplan))) (\<lambda>sp.
          engage_lnav (ap\<lparr>flight_plan_name := nm, flight_plan_target_alt := al,
                           flight_plan_target_speed := sp\<rparr>) index)))
      else Inr ap)"

text \<open>Lines 233 to 242: the STAR, looked up with \<open>arrival_runway[2:]\<close>.\<close>

definition fp_add_star :: "nav \<Rightarrow> autopilot \<Rightarrow> int \<Rightarrow> icao \<Rightarrow> runway_id \<Rightarrow> proc_name \<Rightarrow> error + autopilot" where
  "fp_add_star nv ap index arr_airport arr_runway star0 =
     (if star0 \<noteq> [] then
        then_do (get_procedure nv arr_airport (drop 2 arr_runway) star0 None None) (\<lambda>p.
          if length (waypoint p) > 0 then
            then_do (extend_plan ap index (waypoint p) (alt_restriction p) (speed_restriction p))
              (\<lambda>ap1. engage_lnav ap1 index)
          else Inr ap)
      else Inr ap)"

text \<open>
  Lines 244 to 286: the approach. The initial approach is anchored at the last name
  of the plan (\<open>iaf\<close>); \<open>len(set(waypoint)) == 1\<close> is \<open>length (remdups ws) = 1\<close>;
  \<open>approach[0]\<close> is the first character of the non-empty approach name.
\<close>

definition fp_add_approach :: "nav \<Rightarrow> autopilot \<Rightarrow> int \<Rightarrow> icao \<Rightarrow> runway_id \<Rightarrow> proc_name \<Rightarrow> error + autopilot" where
  "fp_add_approach nv ap index arr_airport arr_runway approach0 =
     (if approach0 \<noteq> [] then
        then_do (py_get (flight_plan_name ap) index) (\<lambda>names.
        then_do (py_last names) (\<lambda>iaf.
        then_do (get_procedure nv arr_airport (drop 2 arr_runway) approach0 (Some ''A'') (Some iaf)) (\<lambda>p.
        then_do
          (if length (waypoint p) > 0 then
             then_do (pop_plan ap index) (\<lambda>ap1.
               if length (remdups (waypoint p)) = 1
               then extend_plan ap1 index (take 1 (waypoint p)) (take 1 (alt_restriction p))
                      (take 1 (speed_restriction p))
               else extend_plan ap1 index (waypoint p) (alt_restriction p) (speed_restriction p))
           else Inr ap) (\<lambda>ap2.
        then_do (get_procedure nv arr_airport (drop 2 arr_runway) approach0
                   (Some [hd approach0]) None) (\<lambda>q.
          if length (waypoint q) > 0 then
            then_do (pop_plan ap2 index) (\<lambda>ap3.
            then_do (extend_plan ap3 index (waypoint q) (alt_restriction q) (speed_restriction q))
              (\<lambda>ap4. engage_lnav ap4 index))
          else Inr ap2)))))
      else Inr ap)"

text \<open>
  Lines 289 to 297: the coordinates, leg by leg. The first name is resolved relative
  to the target position \<open>self.lat[index], self.long[index]\<close>, every later one relative
  to the leg resolved just before.
\<close>

fun resolve_coords :: "nav \<Rightarrow> string list \<Rightarrow> real \<Rightarrow> real \<Rightarrow> error + (real list \<times> real list)" where
  "resolve_coords nv [] ref_lat ref_long = Inr ([], [])"
| "resolve_coords nv (w # ws) ref_lat ref_long =
     then_do (get_wp_coord nv w ref_lat ref_long) (\<lambda>(lat_tmp, long_tmp).
     then_do (resolve_coords nv ws lat_tmp long_tmp) (\<lambda>(lats, longs).
       Inr (lat_tmp # lats, long_tmp # longs)))"

definition fp_resolve_coords :: "nav \<Rightarrow> autopilot \<Rightarrow> int \<Rightarrow> error + autopilot" where
  "fp_resolve_coords nv ap index =
     then_do (py_get (flight_plan_name ap) index) (\<lambda>names.
       if names = [] then Inr ap
       else
         then_do (py_get (lat ap) index) (\<lambda>ref_lat.
         then_do (py_get (long ap) index) (\<lambda>ref_long.
         then_do (resolve_coords nv names ref_lat ref_long) (\<lambda>(lats, longs).
         then_do (upd_at (flight_plan_lat ap) index (\<lambda>xs. Inr (xs @ lats))) (\<lambda>fl.
         then_do (upd_at (flight_plan_long ap) index (\<lambda>xs. Inr (xs @ longs))) (\<lambda>fo.
           Inr (ap\<lparr>flight_plan_lat := fl, flight_plan_long := fo\<rparr>)))))))"

text \<open>One leg appended to the five plan lists (lines 307 to 312 and 326 to 331).\<close>

definition append_leg :: "autopilot \<Rightarrow> int \<Rightarrow> string \<Rightarrow> real \<Rightarrow> real \<Rightarrow> real \<Rightarrow> real \<Rightarrow> error + autopilot" where
  "append_leg ap index leg_name lat_tmp long_tmp alt_tmp speed_tmp =
     then_do (upd_at (flight_plan_name ap) index (\<lambda>xs. Inr (xs @ [leg_name]))) (\<lambda>nm.
     then_do (upd_at (flight_plan_lat ap) index (\<lambda>xs. Inr (xs @ [lat_tmp]))) (\<lambda>fl.
     then_do (upd_at (flight_plan_long ap) index (\<lambda>xs. Inr (xs @ [long_tmp]))) (\<lambda>fo.
     then_do (upd_at (flight_plan_target_alt ap) index (\<lambda>xs. Inr (xs @ [alt_tmp]))) (\<lambda>al.
     then_do (upd_at (flight_plan_target_speed ap) index (\<lambda>xs. Inr (xs @ [speed_tmp]))) (\<lambda>sp.
       Inr (ap\<lparr>flight_plan_name := nm, flight_plan_lat := fl, flight_plan_long := fo,
                flight_plan_target_alt := al, flight_plan_target_speed := sp\<rparr>))))))"

text \<open>Lines 300 to 331: the arrival runway and, when it is a new leg, the opposite runway.\<close>

definition fp_add_arrival_runway :: "nav \<Rightarrow> autopilot \<Rightarrow> int \<Rightarrow> string \<Rightarrow> string \<Rightarrow> error + autopilot" where
  "fp_add_arrival_runway nv ap index arr_airport arr_runway =
     (if arr_runway \<noteq> [] then
        then_do (get_runway_coord nv arr_airport (drop 2 arr_runway)) (\<lambda>(lat_tmp, long_tmp, alt_tmp).
        then_do (py_get (flight_plan_name ap) index) (\<lambda>names.
        then_do (py_last names) (\<lambda>last_name.
          if last_name = arr_runway then
            then_do (upd_at (flight_plan_lat ap) index (\<lambda>xs. py_set xs (- 1) lat_tmp)) (\<lambda>fl.
            then_do (upd_at (flight_plan_long ap) index (\<lambda>xs. py_set xs (- 1) long_tmp)) (\<lambda>fo.
            then_do (upd_at (flight_plan_target_alt ap) index (\<lambda>xs. py_set xs (- 1) alt_tmp)) (\<lambda>al.
              Inr (ap\<lparr>flight_plan_lat := fl, flight_plan_long := fo,
                       flight_plan_target_alt := al\<rparr>))))
          else
            then_do (append_leg ap index (arr_airport @ ''_'' @ arr_runway)
                       lat_tmp long_tmp alt_tmp 0) (\<lambda>ap1.
            then_do (opposite_runway arr_runway) (\<lambda>opp_runway.
            then_do (get_runway_coord nv arr_airport opp_runway) (\<lambda>(lat_opp, long_opp, alt_opp).
              append_leg ap1 index (arr_airport @ ''_'' @ arr_runway @ ''_END'')
                lat_opp long_opp alt_opp 0))))))
      else Inr ap)"

text \<open>
  Lines 334 to 338: the altitude back-fill. With more than one altitude entry the
  last one is set to 0, then the loop runs over the indices in decreasing order:
  an entry that was \<open>-1\<close> takes the value of the entry after it, which the loop has
  already settled. \<open>backfill\<close> is that loop; reading past the end raises IndexError.
\<close>

fun backfill :: "real list \<Rightarrow> error + real list" where
  "backfill [] = Inr []"
| "backfill (v # rest) =
     then_do (backfill rest) (\<lambda>rest'.
       if v = - 1 then (case rest' of [] \<Rightarrow> Inl IndexError | nxt # _ \<Rightarrow> Inr (nxt # rest'))
       else Inr (v # rest'))"

definition fp_backfill_alt :: "autopilot \<Rightarrow> int \<Rightarrow> error + autopilot" where
  "fp_backfill_alt ap index =
     then_do (py_get (flight_plan_target_alt ap) index) (\<lambda>alts.
       if length alts > 1 then
         then_do (upd_at (flight_plan_target_alt ap) index (\<lambda>xs. py_set xs (- 1) 0)) (\<lambda>al0.
         then_do (upd_at al0 index backfill) (\<lambda>al.
           Inr (ap\<lparr>flight_plan_target_alt := al\<rparr>)))
       else Inr ap)"

text \<open>Lines 345 to 349: the departure leg, inserted at position 0 of the five plan lists.\<close>

definition fp_add_departure ::
  "autopilot \<Rightarrow> int \<Rightarrow> string \<Rightarrow> string \<Rightarrow> real \<Rightarrow> real \<Rightarrow> real \<Rightarrow> error + autopilot" where
  "fp_add_departure ap index dep_airport dep_runway lat_dep long_dep alt_dep =
     then_do (upd_at (flight_plan_name ap) index
                (\<lambda>xs. Inr (py_insert xs 0 (dep_airport @ '' '' @ dep_runway)))) (\<lambda>nm.
     then_do (upd_at (flight_plan_lat ap) index (\<lambda>xs. Inr (py_insert xs 0 lat_dep))) (\<lambda>fl.
     then_do (upd_at (flight_plan_long ap) index (\<lambda>xs. Inr (py_insert xs 0 long_dep))) (\<lambda>fo.
     then_do (upd_at (flight_plan_target_alt ap) index (\<lambda>xs. Inr (py_insert xs 0 alt_dep))) (\<lambda>al.
     then_do (upd_at (flight_plan_target_speed ap) index (\<lambda>xs. Inr (py_insert xs 0 0))) (\<lambda>sp.
       Inr (ap\<lparr>flight_plan_name := nm, flight_plan_lat := fl, flight_plan_long := fo,
                flight_plan_target_alt := al, flight_plan_target_speed := sp\<rparr>))))))"

text \<open>
  The first part of \<open>set_flight_plan\<close>, up to line 331: line 183 reads
  \<open>self.flight_plan_name[index]\<close> (to print it), line 185 looks the departure threshold
  up with \<open>departure_runway[2:]\<close>, then the phases follow in the order of the source.
  The result is the threshold and the state before the back-fill.
\<close>

definition fp_assemble ::
  "nav \<Rightarrow> autopilot \<Rightarrow> int \<Rightarrow> icao \<Rightarrow> runway_id \<Rightarrow> proc_name \<Rightarrow> icao \<Rightarrow> runway_id \<Rightarrow>
   proc_name \<Rightarrow> proc_name \<Rightarrow>
   string list \<Rightarrow> int \<Rightarrow> real \<Rightarrow> error + ((real \<times> real \<times> real) \<times> autopilot)" where
  "fp_assemble nv ap index dep_airport dep_runway sid0 arr_airport arr_runway star0
     approach0 fplan fp_index cruise =
     then_do (py_get (flight_plan_name ap) index) (\<lambda>original.
     then_do (get_runway_coord nv dep_airport (drop 2 dep_runway)) (\<lambda>threshold.
     then_do (fp_reset ap index dep_airport dep_runway sid0 arr_airport arr_runway star0
                approach0 fplan fp_index cruise) (\<lambda>ap1.
     then_do (fp_add_sid nv ap1 index dep_airport dep_runway sid0) (\<lambda>ap2.
     then_do (fp_add_enroute ap2 index fplan cruise) (\<lambda>ap3.
     then_do (fp_add_star nv ap3 index arr_airport arr_runway star0) (\<lambda>ap4.
     then_do (fp_add_approach nv ap4 index arr_airport arr_runway approach0) (\<lambda>ap5.
     then_do (fp_resolve_coords nv ap5 index) (\<lambda>ap6.
     then_do (fp_add_arrival_runway nv ap6 index arr_airport arr_runway) (\<lambda>ap7.
       Inr (threshold, ap7))))))))))"

text \<open>The whole of \<open>set_flight_plan\<close>: the assembly, the back-fill, the departure leg.\<close>

definition set_flight_plan ::
  "nav \<Rightarrow> autopilot \<Rightarrow> int \<Rightarrow> icao \<Rightarrow> runway_id \<Rightarrow> proc_name \<Rightarrow> icao \<Rightarrow> runway_id \<Rightarrow>
   proc_name \<Rightarrow> proc_name \<Rightarrow>
   string list \<Rightarrow> int \<Rightarrow> real \<Rightarrow> error + autopilot" where
  "set_flight_plan nv ap index dep_airport dep_runway sid0 arr_airport arr_runway star0
     approach0 fplan fp_index cruise =
     then_do (fp_assemble nv ap index dep_airport dep_runway sid0 arr_airport arr_runway star0
                approach0 fplan fp_index cruise) (\<lambda>((lat_dep, long_dep, alt_dep), ap7).
     then_do (fp_backfill_alt ap7 index) (\<lambda>ap8.
       fp_add_departure ap8 index dep_airport dep_runway lat_dep long_dep alt_dep))"


text \<open>\<open>add_aircraft\<close>: the appends, then \<open>set_flight_plan(-1, ...)\<close>.\<close>

definition add_aircraft ::
  "nav \<Rightarrow> autopilot \<Rightarrow> real \<Rightarrow> real \<Rightarrow> real \<Rightarrow> real \<Rightarrow> real \<Rightarrow> icao \<Rightarrow> runway_id \<Rightarrow> proc_name \<Rightarrow> icao \<Rightarrow> runway_id \<Rightarrow>
   proc_name \<Rightarrow> proc_name \<Rightarrow> string list \<Rightarrow> int \<Rightarrow> real \<Rightarrow> error + autopilot" where
  "add_aircraft nv ap lat0 long0 alt0 heading0 cas0 dep_airport dep_runway sid0 arr_airport
     arr_runway star0 approach0 fplan fp_index cruise =
     set_flight_plan nv
       (append_slot ap lat0 long0 alt0 heading0 cas0 dep_airport dep_runway sid0 arr_airport
          arr_runway star0 approach0 cruise)
       (- 1) dep_airport dep_runway sid0 arr_airport arr_runway star0 approach0 fplan
       fp_index cruise"

section \<open>The per-tick update\<close>

text \<open>
  The geodesy functions of \<open>Cal\<close> are parameters. \<open>Autopilot.update\<close> reads arrays of
  \<open>Traffic\<close>, of its weather and of its performance model, classes outside the sources
  at hand, and stores \<open>traffic.vertical_mode\<close>. The records below hold what the code
  reads: the arrays, the identity array \<open>traffic.index\<close>, the autopilot \<open>traffic.ap\<close>, and
  the functions of \<open>traffic.perf\<close>, which take and return whole arrays. The aircraft
  configurations are members of an enumeration that is only passed through to the
  performance model.
\<close>

record cal =
  cal_great_circle_dist :: "real \<Rightarrow> real \<Rightarrow> real \<Rightarrow> real \<Rightarrow> real"
  cal_great_circle_bearing :: "real \<Rightarrow> real \<Rightarrow> real \<Rightarrow> real \<Rightarrow> real"
  cal_angle_diff :: "real \<Rightarrow> real \<Rightarrow> real"
  cal_dist_off_path :: "real \<Rightarrow> real \<Rightarrow> real \<Rightarrow> real \<Rightarrow> real \<Rightarrow> real \<Rightarrow> real"
  cal_dest_given_dist_bearing :: "real \<Rightarrow> real \<Rightarrow> real \<Rightarrow> real \<Rightarrow> real \<times> real"

record weather =
  weather_p :: "real list"
  weather_rho :: "real list"
  weather_T :: "real list"
  wind_speed :: "real list"
  wind_direction :: "real list"

record perf =
  get_procedure_speed :: "real list \<Rightarrow> real list \<Rightarrow> int list \<Rightarrow> real list"
  cas_to_tas :: "real list \<Rightarrow> real list \<Rightarrow> real list \<Rightarrow> real list"
  tas_to_mach :: "real list \<Rightarrow> real list \<Rightarrow> real list"
  mach_to_tas :: "real list \<Rightarrow> real list \<Rightarrow> real list"
  tas_to_cas :: "real list \<Rightarrow> real list \<Rightarrow> real list \<Rightarrow> real list"
  get_bank_angles :: "int list \<Rightarrow> real list"
  cal_turn_radius :: "real list \<Rightarrow> real list \<Rightarrow> real list"

record traffic =
  traffic_index :: "int list"
  traffic_lat :: "real list"
  traffic_long :: "real list"
  traffic_heading :: "real list"
  traffic_cas :: "real list"
  traffic_ap :: autopilot
  traffic_alt :: "real list"
  traffic_trans_alt :: "real list"
  traffic_configuration :: "int list"
  traffic_max_cas :: "real list"
  traffic_max_mach :: "real list"
  traffic_mach :: "real list"
  traffic_tas :: "real list"
  traffic_speed_mode :: "SpeedMode list"
  traffic_vertical_mode :: "real list"
  traffic_weather :: weather
  traffic_perf :: perf

text \<open>
  autopilot.py, lines 417 to 450: the body of the leg-tracking loop for slot \<open>i\<close>, in
  three runs of statements. The leg pointer \<open>val\<close> indexes the plan lists the Python
  way, so \<open>val - 1\<close> with \<open>val = 0\<close> reads the last leg.
\<close>

text \<open>Lines 422 to 426: the previous and the current target position.\<close>

definition track_leg_position :: "autopilot \<Rightarrow> nat \<Rightarrow> int \<Rightarrow> error + autopilot" where
  "track_leg_position ap i val =
     then_do (py_get (flight_plan_lat ap) (int i)) (\<lambda>lats.
     then_do (py_get lats (val - 1)) (\<lambda>lat_p.
     then_do (py_set (lat_prev ap) (int i) lat_p) (\<lambda>lp.
     then_do (py_get (flight_plan_long ap) (int i)) (\<lambda>longs.
     then_do (py_get longs (val - 1)) (\<lambda>long_p.
     then_do (py_set (long_prev ap) (int i) long_p) (\<lambda>gp.
     then_do (py_get lats val) (\<lambda>lat_c.
     then_do (py_set (lat ap) (int i) lat_c) (\<lambda>la.
     then_do (py_get longs val) (\<lambda>long_c.
     then_do (py_set (long ap) (int i) long_c) (\<lambda>lo.
       Inr (ap\<lparr>lat_prev := lp, long_prev := gp, lat := la, long := lo\<rparr>)))))))))))"

text \<open>Lines 432 to 438: the next target position; \<open>n\<close> is \<open>len(self.flight_plan_name[i])\<close>.\<close>

definition track_leg_next :: "autopilot \<Rightarrow> nat \<Rightarrow> int \<Rightarrow> nat \<Rightarrow> error + autopilot" where
  "track_leg_next ap i val n =
     (if val = int n - 1 then
        then_do (py_set (hv_next_wp ap) (int i) False) (\<lambda>hv. Inr (ap\<lparr>hv_next_wp := hv\<rparr>))
      else
        then_do (py_get (flight_plan_lat ap) (int i)) (\<lambda>lats.
        then_do (py_get lats (val + 1)) (\<lambda>lat_n.
        then_do (py_set (lat_next ap) (int i) lat_n) (\<lambda>ln.
        then_do (py_get (flight_plan_long ap) (int i)) (\<lambda>longs.
        then_do (py_get longs (val + 1)) (\<lambda>long_n.
        then_do (py_set (long_next ap) (int i) long_n) (\<lambda>gn.
        then_do (py_set (hv_next_wp ap) (int i) True) (\<lambda>hv.
          Inr (ap\<lparr>lat_next := ln, long_next := gn, hv_next_wp := hv\<rparr>)))))))))"

text \<open>Lines 441 and 442: the target altitude.\<close>

definition track_leg_alt :: "autopilot \<Rightarrow> nat \<Rightarrow> int \<Rightarrow> error + autopilot" where
  "track_leg_alt ap i val =
     then_do (py_get (flight_plan_target_alt ap) (int i)) (\<lambda>alts.
       if length alts > 1 then
         then_do (py_get alts val) (\<lambda>a.
         then_do (py_set (alt ap) (int i) a) (\<lambda>al. Inr (ap\<lparr>alt := al\<rparr>)))
       else Inr ap)"

definition track_leg :: "autopilot \<Rightarrow> nat \<Rightarrow> error + autopilot" where
  "track_leg ap i =
     then_do (py_get (flight_plan_index ap) (int i)) (\<lambda>val.
     then_do (py_get (flight_plan_name ap) (int i)) (\<lambda>names.
       if val < int (length names) then
         then_do (track_leg_position ap i val) (\<lambda>ap1.
         then_do (track_leg_next ap1 i val (length names)) (\<lambda>ap2.
           track_leg_alt ap2 i val))
       else
         then_do (py_set (lateral_mode ap) (int i) HEADING) (\<lambda>lm.
           Inr (ap\<lparr>lateral_mode := lm\<rparr>))))"

fun track_legs :: "autopilot \<Rightarrow> nat list \<Rightarrow> error + autopilot" where
  "track_legs ap [] = Inr ap"
| "track_legs ap (i # slots) = then_do (track_leg ap i) (\<lambda>ap1. track_legs ap1 slots)"

text \<open>
  The array statements of lines 456 to 524. \<open>np.where(c, a, b)\<close> is \<open>if c then a else b\<close>
  at every slot, \<open>np.minimum\<close> is \<open>min\<close> at every slot, and \<open>np.select\<close> takes the choice
  of the first condition that holds, 0 when none does. The arrays are taken to be
  index-aligned, as the source keeps them. Where numpy yields NaN or infinity (a zero
  true airspeed, an argument of \<open>arcsin\<close> outside \<open>[-1, 1]\<close>) the real-valued term has
  some other value.
\<close>

fun np_select :: "(bool \<times> real) list \<Rightarrow> real" where
  "np_select [] = 0"
| "np_select ((cond, choice) # rest) = (if cond then choice else np_select rest)"

text \<open>
  Lines 456 to 473: the procedural speed, the speed targets \<open>self.cas\<close> and \<open>self.mach\<close>
  (each assigned three times, in the order of the source) and the speed mode.
\<close>

definition speed_targets :: "unit_conversion \<Rightarrow> enum_numbers \<Rightarrow> traffic \<Rightarrow> autopilot \<Rightarrow> autopilot" where
  "speed_targets u en tr ap =
     (let slots = [0..<length (flight_plan_index ap)];
          pf = traffic_perf tr;
          w = traffic_weather tr;
          procedure_speed1 = get_procedure_speed pf (traffic_alt tr) (traffic_trans_alt tr)
                               (traffic_configuration tr);
          cas1 = map (\<lambda>i. if auto_throttle_mode ap ! i = AUTO \<and> procedure_speed1 ! i \<ge> 5
                           then procedure_speed1 ! i else cas ap ! i) slots;
          cas2 = map (\<lambda>i. min (cas1 ! i) (traffic_max_cas tr ! i)) slots;
          mach1 = map (\<lambda>i. if auto_throttle_mode ap ! i = AUTO \<and> procedure_speed1 ! i < 5
                            then procedure_speed1 ! i else mach ap ! i) slots;
          mach2 = map (\<lambda>i. min (mach1 ! i) (traffic_max_mach tr ! i)) slots;
          mach_of_cas = tas_to_mach pf
                          (cas_to_tas pf (map (unit_kts2mps u) cas2) (weather_p w) (weather_rho w))
                          (weather_T w);
          mach3 = map (\<lambda>i. if traffic_speed_mode tr ! i = CAS then mach_of_cas ! i
                            else mach2 ! i) slots;
          cas_of_mach = map (unit_mps2kts u)
                          (tas_to_cas pf (mach_to_tas pf mach3 (weather_T w)) (weather_p w)
                             (weather_rho w));
          cas3 = map (\<lambda>i. if traffic_speed_mode tr ! i = MACH then cas_of_mach ! i
                           else cas2 ! i) slots;
          speed_mode1 = map (\<lambda>i.
              if traffic_speed_mode tr ! i = CAS
              then np_select
                     [(cas3 ! i < traffic_cas tr ! i, ap_speed_mode_number en DECELERATE),
                      (cas3 ! i = traffic_cas tr ! i, ap_speed_mode_number en CONSTANT_CAS),
                      (cas3 ! i > traffic_cas tr ! i, ap_speed_mode_number en ACCELERATE)]
              else np_select
                     [(mach3 ! i < traffic_mach tr ! i, ap_speed_mode_number en DECELERATE),
                      (mach3 ! i = traffic_mach tr ! i, ap_speed_mode_number en CONSTANT_MACH),
                      (mach3 ! i > traffic_mach tr ! i, ap_speed_mode_number en ACCELERATE)])
            slots
      in ap\<lparr>procedure_speed := procedure_speed1, cas := cas3, mach := mach3,
            speed_mode := speed_mode1\<rparr>)"

text \<open>Lines 476 to 485: the array stored in \<open>traffic.vertical_mode\<close>.\<close>

definition vertical_modes :: "enum_numbers \<Rightarrow> traffic \<Rightarrow> autopilot \<Rightarrow> real list" where
  "vertical_modes en tr ap =
     map (\<lambda>i. np_select
            [(alt ap ! i > traffic_alt tr ! i, vertical_mode_number en CLIMB),
             (alt ap ! i = traffic_alt tr ! i, vertical_mode_number en LEVEL),
             (alt ap ! i < traffic_alt tr ! i, vertical_mode_number en DESCENT)])
       [0..<length (flight_plan_index ap)]"

text \<open>
  The expressions of lines 489 to 521, one definition per local name of the source
  (the local \<open>dist\<close> is \<open>dist_km\<close>), each giving the value at slot \<open>i\<close>.
\<close>

definition dist_km :: "cal \<Rightarrow> traffic \<Rightarrow> autopilot \<Rightarrow> nat \<Rightarrow> real" where
  "dist_km c tr ap i =
     cal_great_circle_dist c (traffic_lat tr ! i) (traffic_long tr ! i) (lat ap ! i) (long ap ! i)"

text \<open>Line 491: \<open>self.dist = np.where(self.flight_plan_updated, dist, self.dist)\<close>.\<close>

definition dist_baseline :: "cal \<Rightarrow> traffic \<Rightarrow> autopilot \<Rightarrow> nat \<Rightarrow> real" where
  "dist_baseline c tr ap i = (if flight_plan_updated ap ! i then dist_km c tr ap i else dist_ap ap ! i)"

text \<open>Line 499: the turn radius in kilometres.\<close>

definition turn_radius_km :: "unit_conversion \<Rightarrow> traffic \<Rightarrow> real list" where
  "turn_radius_km u tr =
     map (\<lambda>r. r / 1000)
       (cal_turn_radius (traffic_perf tr)
          (get_bank_angles (traffic_perf tr) (traffic_configuration tr))
          (map (unit_kts2mps u) (traffic_tas tr)))"

definition next_track_angle :: "cal \<Rightarrow> autopilot \<Rightarrow> nat \<Rightarrow> real" where
  "next_track_angle c ap i =
     (if hv_next_wp ap ! i
      then cal_great_circle_bearing c (lat ap ! i) (long ap ! i) (lat_next ap ! i) (long_next ap ! i)
      else track_angle ap ! i)"

definition curr_track_angle :: "cal \<Rightarrow> traffic \<Rightarrow> autopilot \<Rightarrow> nat \<Rightarrow> real" where
  "curr_track_angle c tr ap i =
     cal_great_circle_bearing c (traffic_lat tr ! i) (traffic_long tr ! i) (lat ap ! i) (long ap ! i)"

definition deg2rad :: "real \<Rightarrow> real" where
  "deg2rad x = x * pi / 180"

definition rad2deg :: "real \<Rightarrow> real" where
  "rad2deg x = x * 180 / pi"

text \<open>Line 502.\<close>

definition turn_dist :: "cal \<Rightarrow> traffic \<Rightarrow> real list \<Rightarrow> autopilot \<Rightarrow> nat \<Rightarrow> real" where
  "turn_dist c tr turn_radius ap i =
     turn_radius ! i
       * tan (deg2rad (\<bar>cal_angle_diff c (next_track_angle c ap i) (curr_track_angle c tr ap i)\<bar> / 2))
       * 0.8"

definition cross_track :: "cal \<Rightarrow> traffic \<Rightarrow> autopilot \<Rightarrow> nat \<Rightarrow> real" where
  "cross_track c tr ap i =
     cal_dist_off_path c (lat_prev ap ! i) (long_prev ap ! i) (lat ap ! i) (long ap ! i)
       (traffic_lat tr ! i) (traffic_long tr ! i)"

text \<open>
  Line 507:
  \<^verbatim>\<open>np.where(np.abs(cross_track) > 200, np.sign(cross_track) * 20, 20 * (1 - np.exp(-cross_track / 40)))\<close>.
\<close>

definition correction :: "real \<Rightarrow> real" where
  "correction x = (if \<bar>x\<bar> > 200 then sgn x * 20 else 20 * (1 - exp (- x / 40)))"

text \<open>Lines 508 to 516.\<close>

definition lnav_track_angle :: "cal \<Rightarrow> traffic \<Rightarrow> real list \<Rightarrow> autopilot \<Rightarrow> nat \<Rightarrow> real" where
  "lnav_track_angle c tr turn_radius ap i =
     (if dist_km c tr ap i < turn_dist c tr turn_radius ap i
      then (if hv_next_wp ap ! i then next_track_angle c ap i else track_angle ap ! i)
      else (if dist_km c tr ap i < 1 then track_angle ap ! i
            else curr_track_angle c tr ap i + correction (cross_track c tr ap i)))"

text \<open>Line 521; \<open>self.dist\<close> there is the array line 491 has just stored.\<close>

definition update_next_wp :: "cal \<Rightarrow> traffic \<Rightarrow> autopilot \<Rightarrow> nat \<Rightarrow> bool" where
  "update_next_wp c tr ap i =
     (lateral_mode ap ! i = LNAV \<and> dist_km c tr ap i > dist_baseline c tr ap i \<and>
      \<bar>cal_angle_diff c (traffic_heading tr ! i) (next_track_angle c ap i)\<bar> < 1)"

text \<open>
  The assignments of lines 491, 492, 518, 519, 523 and 524 to the autopilot arrays.
  Line 519 reads the track angles line 518 has just stored; every other right-hand
  side reads the arrays as they are when line 489 is reached.
\<close>

definition guidance :: "cal \<Rightarrow> traffic \<Rightarrow> real list \<Rightarrow> autopilot \<Rightarrow> autopilot" where
  "guidance c tr turn_radius ap =
     (let slots = [0..<length (flight_plan_index ap)];
          w = traffic_weather tr;
          track_angle1 = map (\<lambda>i.
              if lateral_mode ap ! i = HEADING then 0
              else lnav_track_angle c tr turn_radius ap i) slots
      in ap\<lparr>dist_ap := map (\<lambda>i.
             if update_next_wp c tr ap i
             then cal_great_circle_dist c (traffic_lat tr ! i) (traffic_long tr ! i)
                    (lat_next ap ! i) (long_next ap ! i)
             else dist_km c tr ap i) slots,
         flight_plan_updated := map (\<lambda>i.
             if flight_plan_updated ap ! i then False else flight_plan_updated ap ! i) slots,
         track_angle := track_angle1,
         heading := map (\<lambda>i.
             if lateral_mode ap ! i = HEADING then heading ap ! i
             else track_angle1 ! i
                    + arcsin (wind_speed w ! i / traffic_tas tr ! i
                              * sin (track_angle1 ! i - wind_direction w ! i))) slots,
         flight_plan_index := map (\<lambda>i.
             if update_next_wp c tr ap i then flight_plan_index ap ! i + 1
             else flight_plan_index ap ! i) slots\<rparr>)"

text \<open>
  Lines 533 to 551: the holding loop. A holding definition is a list whose entry 0 is
  the name of the fix, entry 4 the inbound course and entry 6 the leg length in
  nautical miles. Arithmetic on an entry that is a string raises TypeError; \<open>np.mod\<close>
  takes the sign of the divisor.
\<close>

definition py_num :: "py_value \<Rightarrow> error + real" where
  "py_num v = (case v of PyNum x \<Rightarrow> Inr x | PyStr s \<Rightarrow> Inl TypeError)"

definition np_mod :: "real \<Rightarrow> real \<Rightarrow> real" where
  "np_mod x m = x - m * of_int \<lfloor>x / m\<rfloor>"

text \<open>
  \<open>names.index(v)\<close> on a list of strings: the first position of \<open>v\<close>, ValueError when it
  does not occur; a number equals no string.
\<close>

fun index_of :: "'a list \<Rightarrow> 'a \<Rightarrow> nat option" where
  "index_of [] x = None"
| "index_of (y # ys) x = (if y = x then Some 0 else map_option Suc (index_of ys x))"

definition py_list_index :: "string list \<Rightarrow> py_value \<Rightarrow> error + int" where
  "py_list_index names v =
     (case v of
        PyNum x \<Rightarrow> Inl ValueError
      | PyStr s \<Rightarrow> (case index_of names s of None \<Rightarrow> Inl ValueError | Some k \<Rightarrow> Inr (int k)))"

text \<open>\<open>self.holding_info[i][4]\<close>, read as a number.\<close>

definition holding_course :: "autopilot \<Rightarrow> nat \<Rightarrow> error + real" where
  "holding_course ap i =
     then_do (py_get (holding_info ap) (int i)) (\<lambda>info. then_do (py_get info 4) py_num)"

text \<open>
  The condition of line 535, evaluated from left to right: the holding definition is
  not empty, the heading is within 90 degrees of the inbound course, and the leg
  pointer is past the position of the fix in the plan.
\<close>

definition hold_entry_due :: "cal \<Rightarrow> autopilot \<Rightarrow> nat \<Rightarrow> error + bool" where
  "hold_entry_due c ap i =
     then_do (py_get (holding_info ap) (int i)) (\<lambda>info.
       if info = [] then Inr False
       else
         then_do (py_get (heading ap) (int i)) (\<lambda>heading0.
         then_do (holding_course ap i) (\<lambda>course.
           if \<bar>cal_angle_diff c heading0 course\<bar> < 90 then
             then_do (py_get (flight_plan_index ap) (int i)) (\<lambda>val.
             then_do (py_get (flight_plan_name ap) (int i)) (\<lambda>names.
             then_do (py_get info 0) (\<lambda>holding_fix.
             then_do (py_list_index names holding_fix) (\<lambda>k. Inr (val > k)))))
           else Inr False)))"

text \<open>Lines 536 and 537, and again 543 and 544: the turn to the reciprocal of the course.\<close>

definition turn_outbound :: "autopilot \<Rightarrow> nat \<Rightarrow> error + autopilot" where
  "turn_outbound ap i =
     then_do (holding_course ap i) (\<lambda>course.
     then_do (py_set (heading ap) (int i) (np_mod (course + 180) 360)) (\<lambda>hd.
     then_do (py_get (holding_round ap) (int i)) (\<lambda>rounds.
     then_do (py_set (holding_round ap) (int i) (rounds - 1)) (\<lambda>hr.
       Inr (ap\<lparr>heading := hd, holding_round := hr\<rparr>)))))"

text \<open>Lines 536 to 540: the hold is entered, the leg pointer goes back by one.\<close>

definition hold_enter :: "autopilot \<Rightarrow> nat \<Rightarrow> error + autopilot" where
  "hold_enter ap i =
     then_do (turn_outbound ap i) (\<lambda>ap1.
     then_do (py_get (flight_plan_index ap1) (int i)) (\<lambda>val.
     then_do (py_set (flight_plan_index ap1) (int i) (val - 1)) (\<lambda>fi.
     then_do (py_set (lateral_mode ap1) (int i) HEADING) (\<lambda>lm.
     then_do (py_set (holding ap1) (int i) True) (\<lambda>h.
       Inr (ap1\<lparr>flight_plan_index := fi, lateral_mode := lm, holding := h\<rparr>))))))"

text \<open>Lines 542 to 544; \<open>dists\<close> is the local array \<open>dist\<close> of line 489.\<close>

definition hold_outbound :: "cal \<Rightarrow> real list \<Rightarrow> autopilot \<Rightarrow> nat \<Rightarrow> error + autopilot" where
  "hold_outbound c dists ap i =
     then_do (py_get (heading ap) (int i)) (\<lambda>heading0.
     then_do (holding_course ap i) (\<lambda>course.
       if \<bar>cal_angle_diff c heading0 course\<bar> < 90 then
         then_do (py_get dists (int i)) (\<lambda>d. if d < 1 then turn_outbound ap i else Inr ap)
       else Inr ap))"

text \<open>Lines 546 to 551: the turn inbound and, with no round left, the end of the hold.\<close>

definition hold_inbound :: "cal \<Rightarrow> unit_conversion \<Rightarrow> real list \<Rightarrow> autopilot \<Rightarrow> nat \<Rightarrow> error + autopilot" where
  "hold_inbound c u dists ap i =
     then_do (py_get (heading ap) (int i)) (\<lambda>heading0.
     then_do (holding_course ap i) (\<lambda>course.
       if \<bar>cal_angle_diff c heading0 (course + 180)\<bar> < 90 then
         then_do (py_get dists (int i)) (\<lambda>d.
         then_do (py_get (holding_info ap) (int i)) (\<lambda>info.
         then_do (py_get info 6) (\<lambda>leg.
         then_do (py_num leg) (\<lambda>leg_nm.
           if d > unit_nm2m u leg_nm / 1000 then
             then_do (py_set (heading ap) (int i) course) (\<lambda>hd.
             then_do (py_get (holding_round ap) (int i)) (\<lambda>rounds.
               if rounds \<le> 0 then
                 then_do (py_set (lateral_mode ap) (int i) LNAV) (\<lambda>lm.
                 then_do (py_set (holding ap) (int i) False) (\<lambda>h.
                 then_do (py_set (holding_info ap) (int i) []) (\<lambda>hi.
                   Inr (ap\<lparr>heading := hd, lateral_mode := lm, holding := h,
                            holding_info := hi\<rparr>))))
               else Inr (ap\<lparr>heading := hd\<rparr>)))
           else Inr ap))))
       else Inr ap))"

text \<open>The body of the holding loop for slot \<open>i\<close>.\<close>

definition hold_slot :: "cal \<Rightarrow> unit_conversion \<Rightarrow> real list \<Rightarrow> autopilot \<Rightarrow> nat \<Rightarrow> error + autopilot" where
  "hold_slot c u dists ap i =
     then_do (py_get (holding ap) (int i)) (\<lambda>h.
       if h = False then
         then_do (hold_entry_due c ap i) (\<lambda>due. if due then hold_enter ap i else Inr ap)
       else
         then_do (hold_outbound c dists ap i) (\<lambda>ap1. hold_inbound c u dists ap1 i))"

fun hold_slots :: "cal \<Rightarrow> unit_conversion \<Rightarrow> real list \<Rightarrow> autopilot \<Rightarrow> nat list \<Rightarrow> error + autopilot" where
  "hold_slots c u dists ap [] = Inr ap"
| "hold_slots c u dists ap (i # slots) =
     then_do (hold_slot c u dists ap i) (\<lambda>ap1. hold_slots c u dists ap1 slots)"

text \<open>
  \<open>Autopilot.update\<close>, called on the autopilot of the traffic object it is given: the
  leg-tracking loop over all slots, the array statements, the holding loop. The
  result is the traffic object with its autopilot and its vertical modes as the tick
  leaves them; an exception ends the tick.
\<close>

definition update :: "cal \<Rightarrow> unit_conversion \<Rightarrow> enum_numbers \<Rightarrow> traffic \<Rightarrow> error + traffic" where
  "update c u en tr =
     then_do (track_legs (traffic_ap tr) [0..<length (flight_plan_index (traffic_ap tr))]) (\<lambda>ap1.
       let ap2 = speed_targets u en tr ap1;
           dists = map (dist_km c tr ap2) [0..<length (flight_plan_index ap2)];
           ap3 = guidance c tr (turn_radius_km u tr) ap2
       in then_do (hold_slots c u dists ap3 [0..<length (holding ap3)]) (\<lambda>ap4.
            Inr (tr\<lparr>traffic_ap := ap4, traffic_vertical_mode := vertical_modes en tr ap2\<rparr>)))"

section \<open>The aircraft facade\<close>

text \<open>
  aircraft.py: an \<open>Aircraft\<close> holds the traffic store, its identity \<open>self.index\<close> and the
  fix it is vectored to. Every method resolves the slot with
  \<open>np.where(self.traffic.index == self.index)[0][0]\<close>, the first position of the identity
  (\<open>index_of\<close>), which raises IndexError when the identity is absent. A method mutates the store in place, so a raised exception
  leaves the changes made before it: the result of a method is the state, or the
  exception with the state at the raise.
\<close>

record aircraft =
  traffic :: traffic
  self_index :: int
  vectoring :: string

text \<open>The state a facade method leaves, returned or raised.\<close>

definition outcome_state :: "(error \<times> 's) + 's \<Rightarrow> 's" where
  "outcome_state r = (case r of Inl (e, s) \<Rightarrow> s | Inr s \<Rightarrow> s)"

definition resolve_index :: "aircraft \<Rightarrow> error + int" where
  "resolve_index self =
     (case index_of (traffic_index (traffic self)) (self_index self) of
        None \<Rightarrow> Inl IndexError
      | Some k \<Rightarrow> Inr (int k))"

definition self_ap :: "aircraft \<Rightarrow> autopilot" where
  "self_ap self = traffic_ap (traffic self)"

definition set_ap :: "aircraft \<Rightarrow> autopilot \<Rightarrow> aircraft" where
  "set_ap self a = self\<lparr>traffic := (traffic self)\<lparr>traffic_ap := a\<rparr>\<rparr>"

text \<open>Lines 137 and 138: \<open>set_direct\<close>. The waypoint argument occurs nowhere in the body.\<close>

definition set_direct :: "aircraft \<Rightarrow> string \<Rightarrow> (error \<times> aircraft) + aircraft" where
  "set_direct self wp =
     (case resolve_index self of
        Inl e \<Rightarrow> Inl (e, self)
      | Inr index \<Rightarrow>
          (case py_set (lateral_mode (self_ap self)) index LNAV of
             Inl e \<Rightarrow> Inl (e, self)
           | Inr lm \<Rightarrow> Inr (set_ap self ((self_ap self)\<lparr>lateral_mode := lm\<rparr>))))"

text \<open>
  Lines 153 to 156: \<open>set_holding\<close>. The round counter is stored first; the assignment
  of line 155 evaluates \<open>Nav.get_holding_procedure\<close> before it stores.
\<close>

definition set_holding ::
  "nav \<Rightarrow> aircraft \<Rightarrow> real \<Rightarrow> string \<Rightarrow> string \<Rightarrow> (error \<times> aircraft) + aircraft" where
  "set_holding nv self holding_time holding_fix region =
     (case resolve_index self of
        Inl e \<Rightarrow> Inl (e, self)
      | Inr index \<Rightarrow>
          (case py_set (holding_round (self_ap self)) index holding_time of
             Inl e \<Rightarrow> Inl (e, self)
           | Inr hr \<Rightarrow>
               (let self1 = set_ap self ((self_ap self)\<lparr>holding_round := hr\<rparr>) in
                case get_holding_procedure nv holding_fix region of
                  Inl e \<Rightarrow> Inl (e, self1)
                | Inr info \<Rightarrow>
                    (case py_set (holding_info (self_ap self1)) index info of
                       Inl e \<Rightarrow> Inl (e, self1)
                     | Inr hi \<Rightarrow> Inr (set_ap self1 ((self_ap self1)\<lparr>holding_info := hi\<rparr>))))))"

text \<open>Lines 343 to 348: \<open>get_next_wp\<close>, \<open>None\<close> when the leg pointer is past the plan.\<close>

definition get_next_wp :: "aircraft \<Rightarrow> error + string option" where
  "get_next_wp self =
     then_do (resolve_index self) (\<lambda>index.
     then_do (py_get (flight_plan_index (self_ap self)) index) (\<lambda>i.
     then_do (py_get (flight_plan_name (self_ap self)) index) (\<lambda>names.
       if i \<ge> int (length names) then Inr None
       else then_do (py_get names i) (\<lambda>w. Inr (Some w)))))"

text \<open>
  Lines 175 to 180: the position of the interim waypoint. Where numpy yields NaN or
  infinity (a zero \<open>new_dist\<close>, an argument of \<open>arccos\<close> outside \<open>[-1, 1]\<close>) the
  real-valued term has some other value; the position enters no statement below.
\<close>

definition vect_position ::
  "cal \<Rightarrow> (real \<Rightarrow> real) \<Rightarrow> traffic \<Rightarrow> int \<Rightarrow> real \<Rightarrow> real \<Rightarrow> error + (real \<times> real)" where
  "vect_position c kts2mps tr index vectoring_time v_2 =
     then_do (py_get (dist_ap (traffic_ap tr)) index) (\<lambda>d.
     then_do (py_get (traffic_cas tr) index) (\<lambda>cas0.
     then_do (py_get (heading (traffic_ap tr)) index) (\<lambda>heading0.
     then_do (py_get (traffic_lat tr) index) (\<lambda>lat0.
     then_do (py_get (traffic_long tr) index) (\<lambda>long0.
       let new_dist = d + kts2mps (cas0 + v_2) * vectoring_time / 2000;
           bearing = np_mod (heading0 + rad2deg (arccos (d / new_dist)) + 360) 360
       in Inr (cal_dest_given_dist_bearing c lat0 long0 bearing (new_dist / 2)))))))"

text \<open>
  Lines 183 to 191: the five statements that insert the interim leg at the leg
  pointer \<open>i\<close>. Line 189 stores \<open>v_2\<close> at position \<open>i\<close> of the speed list before line 190
  inserts the entry at position \<open>i\<close> once more.
\<close>

definition insert_vect :: "autopilot \<Rightarrow> int \<Rightarrow> real \<Rightarrow> real \<Rightarrow> real \<Rightarrow> (error \<times> autopilot) + autopilot" where
  "insert_vect a index lat_v long_v v_2 =
     (case py_get (flight_plan_index a) index of
        Inl e \<Rightarrow> Inl (e, a)
      | Inr i \<Rightarrow>
     (case upd_at (flight_plan_lat a) index (\<lambda>xs. Inr (py_insert xs i lat_v)) of
        Inl e \<Rightarrow> Inl (e, a)
      | Inr fl \<Rightarrow>
     (let a1 = a\<lparr>flight_plan_lat := fl\<rparr> in
      case upd_at (flight_plan_long a1) index (\<lambda>xs. Inr (py_insert xs i long_v)) of
        Inl e \<Rightarrow> Inl (e, a1)
      | Inr fo \<Rightarrow>
     (let a2 = a1\<lparr>flight_plan_long := fo\<rparr> in
      case upd_at (flight_plan_name a2) index (\<lambda>xs. Inr (py_insert xs i ''VECT'')) of
        Inl e \<Rightarrow> Inl (e, a2)
      | Inr nm \<Rightarrow>
     (let a3 = a2\<lparr>flight_plan_name := nm\<rparr> in
      case upd_at (flight_plan_target_alt a3) index
             (\<lambda>xs. then_do (py_get xs i) (\<lambda>v. Inr (py_insert xs i v))) of
        Inl e \<Rightarrow> Inl (e, a3)
      | Inr al \<Rightarrow>
     (let a4 = a3\<lparr>flight_plan_target_alt := al\<rparr> in
      case upd_at (flight_plan_target_speed a4) index (\<lambda>xs. py_set xs i v_2) of
        Inl e \<Rightarrow> Inl (e, a4)
      | Inr sp \<Rightarrow>
     (let a5 = a4\<lparr>flight_plan_target_speed := sp\<rparr> in
      case upd_at (flight_plan_target_speed a5) index
             (\<lambda>xs. then_do (py_get xs i) (\<lambda>v. Inr (py_insert xs i v))) of
        Inl e \<Rightarrow> Inl (e, a5)
      | Inr sp2 \<Rightarrow> Inr (a5\<lparr>flight_plan_target_speed := sp2\<rparr>))))))))"

text \<open>
  Lines 171 to 191: \<open>set_vectoring\<close>. The guard is
  \<open>not self.vectoring == fix and self.get_next_wp() == fix\<close>: \<open>get_next_wp\<close> is only called
  when the first conjunct holds, and \<open>None == fix\<close> is false. \<open>Unit.kts2mps\<close> is a
  parameter.
\<close>

definition set_vectoring ::
  "cal \<Rightarrow> (real \<Rightarrow> real) \<Rightarrow> aircraft \<Rightarrow> real \<Rightarrow> real \<Rightarrow> string \<Rightarrow> (error \<times> aircraft) + aircraft" where
  "set_vectoring c kts2mps self vectoring_time v_2 fix =
     (if vectoring self = fix then Inr self
      else
        (case get_next_wp self of
           Inl e \<Rightarrow> Inl (e, self)
         | Inr next_wp \<Rightarrow>
             if next_wp \<noteq> Some fix then Inr self
             else
               (let self1 = self\<lparr>vectoring := fix\<rparr> in
                case resolve_index self1 of
                  Inl e \<Rightarrow> Inl (e, self1)
                | Inr index \<Rightarrow>
                    (case vect_position c kts2mps (traffic self1) index vectoring_time v_2 of
                       Inl e \<Rightarrow> Inl (e, self1)
                     | Inr (lat_v, long_v) \<Rightarrow>
                         (case insert_vect (self_ap self1) index lat_v long_v v_2 of
                            Inl (e, a) \<Rightarrow> Inl (e, set_ap self1 a)
                          | Inr a \<Rightarrow> Inr (set_ap self1 a))))))"

section \<open>Examples: a small navigation database and two aircraft\<close>

text \<open>
  One airport with one runway threshold, a three-leg SID with an altitude restriction
  on its middle leg only, a one-leg SID without any, no holding definition.
\<close>

definition no_procedure :: procedure where
  "no_procedure = \<lparr>waypoint = [], alt_restriction_type = [], alt_restriction = [],
     speed_restriction_type = [], speed_restriction = []\<rparr>"

definition nav_demo :: nav where
  "nav_demo =
     \<lparr>get_runway_coord = (\<lambda>airport runway.
        if airport = ''VHHH'' \<and> runway = ''07R'' then Inr (22, 113, 28) else Inl NotFound),
      get_procedure = (\<lambda>airport runway name appch iaf.
        if airport = ''VHHH'' \<and> name = ''OCEAN2B''
        then Inr \<lparr>waypoint = [''PORPA'', ''PRAWN'', ''OCEAN''],
                  alt_restriction_type = ['' '', ''+'', '' ''],
                  alt_restriction = [- 1, 5000, - 1],
                  speed_restriction_type = ['' '', ''-'', '' ''],
                  speed_restriction = [- 1, 250, - 1]\<rparr>
        else if airport = ''VHHH'' \<and> name = ''PORPA1A''
        then Inr \<lparr>waypoint = [''PORPA''],
                  alt_restriction_type = ['' ''],
                  alt_restriction = [- 1],
                  speed_restriction_type = ['' ''],
                  speed_restriction = [- 1]\<rparr>
        else Inr no_procedure),
      get_wp_coord = (\<lambda>name ref_lat ref_long. Inr (ref_lat + 1, ref_long + 1)),
      get_holding_procedure = (\<lambda>fix region. Inl NotFound)\<rparr>"

text \<open>The autopilot after the appends of \<open>add_aircraft\<close> for one aircraft at the threshold.\<close>

definition demo_slot :: autopilot where
  "demo_slot = append_slot init_autopilot 22 113 0 70 150 ''VHHH'' ''RW07R'' [] [] [] [] [] (- 1)"

text \<open>
  Stand-ins for the geodesy functions in the examples. The theorems below hold for
  every choice of these functions.
\<close>

definition cal_demo :: cal where
  "cal_demo =
     \<lparr>cal_great_circle_dist = (\<lambda>lat1 long1 lat2 long2. \<bar>lat2 - lat1\<bar> + \<bar>long2 - long1\<bar>),
      cal_great_circle_bearing = (\<lambda>lat1 long1 lat2 long2. 0),
      cal_angle_diff = (\<lambda>a b. a - b),
      cal_dist_off_path = (\<lambda>lat1 long1 lat2 long2 lat3 long3. 0),
      cal_dest_given_dist_bearing = (\<lambda>lat1 long1 bearing d. (lat1, long1))\<rparr>"

text \<open>
  One aircraft added with the three-leg SID and the leg offset 1: the plan is the
  departure leg, PORPA, PRAWN, OCEAN, and the leg pointer 2 is at PRAWN.
\<close>

definition demo_ap :: autopilot where
  "demo_ap =
     (case add_aircraft nav_demo init_autopilot 22 113 0 70 150 ''VHHH'' ''RW07R'' ''OCEAN2B''
             [] [] [] [] [] 1 37000 of
        Inr a \<Rightarrow> a
      | Inl e \<Rightarrow> init_autopilot)"

text \<open>
  Stand-ins for the unit conversions, the numbers of the enumeration members, the
  weather and the performance model in the examples: no wind, a procedural speed of
  250 knots at every slot.
\<close>

definition unit_demo :: unit_conversion where
  "unit_demo =
     \<lparr>unit_kts2mps = (\<lambda>x. x / 2), unit_mps2kts = (\<lambda>x. x * 2), unit_nm2m = (\<lambda>x. x * 1852)\<rparr>"

definition enum_demo :: enum_numbers where
  "enum_demo =
     \<lparr>ap_speed_mode_number = (\<lambda>m. case m of CONSTANT_MACH \<Rightarrow> 1 | CONSTANT_CAS \<Rightarrow> 2
                                   | ACCELERATE \<Rightarrow> 3 | DECELERATE \<Rightarrow> 4),
      vertical_mode_number = (\<lambda>m. case m of LEVEL \<Rightarrow> 1 | CLIMB \<Rightarrow> 2 | DESCENT \<Rightarrow> 3)\<rparr>"

definition weather_demo :: weather where
  "weather_demo =
     \<lparr>weather_p = [101325], weather_rho = [1], weather_T = [288], wind_speed = [0],
      wind_direction = [0]\<rparr>"

definition perf_demo :: perf where
  "perf_demo =
     \<lparr>get_procedure_speed = (\<lambda>alts trans_alts configurations. map (\<lambda>a. 250) alts),
      cas_to_tas = (\<lambda>v p rho. v),
      tas_to_mach = (\<lambda>v temp. map (\<lambda>x. x / 300) v),
      mach_to_tas = (\<lambda>m temp. map (\<lambda>x. x * 300) m),
      tas_to_cas = (\<lambda>v p rho. v),
      get_bank_angles = (\<lambda>configurations. map (\<lambda>k. 25) configurations),
      cal_turn_radius = (\<lambda>bank v. map (\<lambda>x. x * 30) v)\<rparr>"

definition demo_traffic :: traffic where
  "demo_traffic =
     \<lparr>traffic_index = [7], traffic_lat = [22], traffic_long = [113], traffic_heading = [70],
      traffic_cas = [150], traffic_ap = demo_ap, traffic_alt = [0], traffic_trans_alt = [9000],
      traffic_configuration = [1], traffic_max_cas = [340], traffic_max_mach = [0.82],
      traffic_mach = [0.25], traffic_tas = [150], traffic_speed_mode = [CAS],
      traffic_vertical_mode = [0], traffic_weather = weather_demo, traffic_perf = perf_demo\<rparr>"

definition demo_aircraft :: aircraft where
  "demo_aircraft = \<lparr>traffic = demo_traffic, self_index = 7, vectoring = []\<rparr>"

text \<open>The same aircraft flying a heading: its lateral mode is HEADING.\<close>

definition demo_on_heading :: aircraft where
  "demo_on_heading =
     \<lparr>traffic = demo_traffic\<lparr>traffic_ap := demo_ap\<lparr>lateral_mode := [HEADING]\<rparr>\<rparr>,
      self_index = 7, vectoring = []\<rparr>"

text \<open>The same aircraft some ticks later: the flag is clear, the cached distance is 5.\<close>

definition demo_enroute :: traffic where
  "demo_enroute =
     demo_traffic\<lparr>traffic_ap := demo_ap\<lparr>flight_plan_updated := [False], dist_ap := [5]\<rparr>\<rparr>"

text \<open>
  The same aircraft moving away from PRAWN on the track to OCEAN: the flag is clear,
  the cached distance is 3, the heading is the next track angle.
\<close>

definition demo_passing :: traffic where
  "demo_passing =
     demo_traffic\<lparr>traffic_heading := [0],
       traffic_ap := demo_ap\<lparr>flight_plan_updated := [False], dist_ap := [3]\<rparr>\<rparr>"

text \<open>
  The aircraft of \<open>demo_enroute\<close> with a holding definition for PORPA cached, inbound
  course 70, leg length 4 nautical miles, two rounds.
\<close>

definition demo_hold :: traffic where
  "demo_hold =
     demo_traffic\<lparr>traffic_ap := demo_ap\<lparr>flight_plan_updated := [False], dist_ap := [5],
       holding_round := [2],
       holding_info := [[PyStr ''PORPA'', PyStr ''VH'', PyStr ''ENRT'', PyStr ''R'', PyNum 70,
                         PyNum 1, PyNum 4]]\<rparr>\<rparr>"

text \<open>
  A second aircraft added behind the first, with one enroute waypoint and the cruise
  altitude 20000.
\<close>

definition demo_two :: autopilot where
  "demo_two =
     (case add_aircraft nav_demo demo_ap 22 113 0 70 150 ''VHHH'' ''RW07R'' [] [] [] [] []
             [''OCEAN''] 0 20000 of
        Inr a \<Rightarrow> a
      | Inl e \<Rightarrow> demo_ap)"

section \<open>Facts about the list operations\<close>

lemma then_do_Inr: "then_do r f = Inr y \<longleftrightarrow> (\<exists>x. r = Inr x \<and> f x = Inr y)"
  by (cases r) (simp_all add: then_do_def)

lemma then_do_frame:
  assumes "then_do r f = Inr y" and "\<And>x. r = Inr x \<Longrightarrow> f x = Inr y \<Longrightarrow> P"
  shows P
  using assms by (cases r) (simp_all add: then_do_def)

lemma py_set_get: "py_set xs i v = Inr ys \<Longrightarrow> py_get ys i = Inr v \<and> length ys = length xs"
  by (auto simp: py_set_def py_get_def then_do_def py_index_def split: if_splits)

lemma upd_at_Inr:
  assumes "upd_at xss i f = Inr yss"
  shows "\<exists>xs ys. py_get xss i = Inr xs \<and> f xs = Inr ys \<and> py_get yss i = Inr ys \<and>
           length yss = length xss"
  using assms by (auto simp: upd_at_def then_do_Inr dest: py_set_get)

lemma py_insert_front: "py_insert xs 0 v = v # xs"
  by (simp add: py_insert_def)

lemma fp_add_departure_legs:
  assumes "fp_add_departure ap index a r la lo al = Inr ap'"
  shows "\<exists>names lats longs alts speeds.
     py_get (flight_plan_name ap) index = Inr names \<and>
     py_get (flight_plan_name ap') index = Inr ((a @ '' '' @ r) # names) \<and>
     py_get (flight_plan_lat ap) index = Inr lats \<and>
     py_get (flight_plan_lat ap') index = Inr (la # lats) \<and>
     py_get (flight_plan_long ap) index = Inr longs \<and>
     py_get (flight_plan_long ap') index = Inr (lo # longs) \<and>
     py_get (flight_plan_target_alt ap) index = Inr alts \<and>
     py_get (flight_plan_target_alt ap') index = Inr (al # alts) \<and>
     py_get (flight_plan_target_speed ap) index = Inr speeds \<and>
     py_get (flight_plan_target_speed ap') index = Inr (0 # speeds)"
proof -
  from assms obtain nm fl fo fa sp where
    nm: "upd_at (flight_plan_name ap) index (\<lambda>xs. Inr (py_insert xs 0 (a @ '' '' @ r))) = Inr nm" and
    fl: "upd_at (flight_plan_lat ap) index (\<lambda>xs. Inr (py_insert xs 0 la)) = Inr fl" and
    fo: "upd_at (flight_plan_long ap) index (\<lambda>xs. Inr (py_insert xs 0 lo)) = Inr fo" and
    fa: "upd_at (flight_plan_target_alt ap) index (\<lambda>xs. Inr (py_insert xs 0 al)) = Inr fa" and
    sp: "upd_at (flight_plan_target_speed ap) index (\<lambda>xs. Inr (py_insert xs 0 0)) = Inr sp" and
    ap': "ap' = ap\<lparr>flight_plan_name := nm, flight_plan_lat := fl, flight_plan_long := fo,
                flight_plan_target_alt := fa, flight_plan_target_speed := sp\<rparr>"
    by (auto simp: fp_add_departure_def then_do_Inr)
  from upd_at_Inr[OF nm] upd_at_Inr[OF fl] upd_at_Inr[OF fo] upd_at_Inr[OF fa] upd_at_Inr[OF sp]
  show ?thesis unfolding ap' by (auto simp: py_insert_front)
qed

lemma set_flight_plan_tail:
  assumes "set_flight_plan nv ap index dep_airport dep_runway sid0 arr_airport arr_runway star0
     approach0 fplan fp_index cruise = Inr ap'"
  shows "\<exists>lat_dep long_dep alt_dep ap7 ap8.
     fp_assemble nv ap index dep_airport dep_runway sid0 arr_airport arr_runway star0
       approach0 fplan fp_index cruise = Inr ((lat_dep, long_dep, alt_dep), ap7) \<and>
     fp_backfill_alt ap7 index = Inr ap8 \<and>
     fp_add_departure ap8 index dep_airport dep_runway lat_dep long_dep alt_dep = Inr ap'"
  using assms by (auto simp: set_flight_plan_def then_do_Inr)

lemma fp_assemble_threshold:
  assumes "fp_assemble nv ap index dep_airport dep_runway sid0 arr_airport arr_runway star0
       approach0 fplan fp_index cruise = Inr (th, ap7)"
  shows "get_runway_coord nv dep_airport (drop 2 dep_runway) = Inr th"
  using assms by (auto simp: fp_assemble_def then_do_Inr)




section \<open>Flight-plan assembly: the departure leg and the back-fill\<close>

lemmas run_defs = add_aircraft_def demo_slot_def append_slot_def init_autopilot_def
  set_flight_plan_def fp_assemble_def
  fp_reset_def fp_add_sid_def fp_add_enroute_def fp_add_star_def fp_add_approach_def
  fp_resolve_coords_def fp_add_arrival_runway_def fp_backfill_alt_def fp_add_departure_def
  extend_plan_def engage_lnav_def upd_at_def then_do_def py_get_def py_set_def py_index_def
  py_insert_def py_last_def nav_demo_def no_procedure_def

text \<open>
  C1. Whenever \<open>set_flight_plan\<close> returns, leg 0 of the plan of the slot is the
  departure leg: its name is the departure airport, a blank and the departure runway,
  its position and target altitude are the threshold \<open>Nav.get_runway_coord\<close> gives for
  the departure airport and \<open>departure_runway[2:]\<close>, and its target speed is 0.
\<close>

theorem set_flight_plan_departure_leg:
  assumes "set_flight_plan nv ap index dep_airport dep_runway sid0 arr_airport arr_runway star0
     approach0 fplan fp_index cruise = Inr ap'"
  shows "\<exists>lat_dep long_dep alt_dep names lats longs alts speeds.
     get_runway_coord nv dep_airport (drop 2 dep_runway) = Inr (lat_dep, long_dep, alt_dep) \<and>
     py_get (flight_plan_name ap') index = Inr ((dep_airport @ '' '' @ dep_runway) # names) \<and>
     py_get (flight_plan_lat ap') index = Inr (lat_dep # lats) \<and>
     py_get (flight_plan_long ap') index = Inr (long_dep # longs) \<and>
     py_get (flight_plan_target_alt ap') index = Inr (alt_dep # alts) \<and>
     py_get (flight_plan_target_speed ap') index = Inr (0 # speeds)"
proof -
  from set_flight_plan_tail[OF assms] obtain lat_dep long_dep alt_dep ap7 ap8 where
    asm: "fp_assemble nv ap index dep_airport dep_runway sid0 arr_airport arr_runway star0
       approach0 fplan fp_index cruise = Inr ((lat_dep, long_dep, alt_dep), ap7)" and
    dep: "fp_add_departure ap8 index dep_airport dep_runway lat_dep long_dep alt_dep = Inr ap'"
    by blast
  from fp_assemble_threshold[OF asm] fp_add_departure_legs[OF dep] show ?thesis by blast
qed

lemma demo_sid_runs:
  "\<not> isl (set_flight_plan nav_demo demo_slot (- 1) ''VHHH'' ''RW07R'' ''OCEAN2B'' [] [] [] []
       [] 0 37000)"
  by (simp add: run_defs)

lemma demo_sid_names:
  "map_sum id flight_plan_name (set_flight_plan nav_demo demo_slot (- 1) ''VHHH'' ''RW07R''
      ''OCEAN2B'' [] [] [] [] [] 0 37000) = Inr [[''VHHH RW07R'', ''PORPA'', ''PRAWN'', ''OCEAN'']]"
  by (simp add: run_defs)


theorem set_flight_plan_departure_leg_witness:
  "\<exists>ap'. set_flight_plan nav_demo demo_slot (- 1) ''VHHH'' ''RW07R'' ''OCEAN2B'' [] [] [] []
       [] 0 37000 = Inr ap' \<and>
     flight_plan_name ap' = [[''VHHH RW07R'', ''PORPA'', ''PRAWN'', ''OCEAN'']] \<and>
     (\<exists>lat_dep long_dep alt_dep names lats longs alts speeds.
       get_runway_coord nav_demo ''VHHH'' (drop 2 ''RW07R'') = Inr (lat_dep, long_dep, alt_dep) \<and>
       py_get (flight_plan_name ap') (- 1) = Inr ((''VHHH'' @ '' '' @ ''RW07R'') # names) \<and>
       py_get (flight_plan_lat ap') (- 1) = Inr (lat_dep # lats) \<and>
       py_get (flight_plan_long ap') (- 1) = Inr (long_dep # longs) \<and>
       py_get (flight_plan_target_alt ap') (- 1) = Inr (alt_dep # alts) \<and>
       py_get (flight_plan_target_speed ap') (- 1) = Inr (0 # speeds))"
proof -
  obtain ap' where r: "set_flight_plan nav_demo demo_slot (- 1) ''VHHH'' ''RW07R'' ''OCEAN2B''
      [] [] [] [] [] 0 37000 = Inr ap'"
    using demo_sid_runs by (cases "set_flight_plan nav_demo demo_slot (- 1) ''VHHH'' ''RW07R''
      ''OCEAN2B'' [] [] [] [] [] 0 37000") auto
  have n: "flight_plan_name ap' = [[''VHHH RW07R'', ''PORPA'', ''PRAWN'', ''OCEAN'']]"
    using demo_sid_names by (simp add: r)
  from r n set_flight_plan_departure_leg[OF r] show ?thesis by blast
qed




















text \<open>
  Enroute waypoints without a cruise altitude: the SID followed by the waypoint TUNNA
  with \<open>cruise_alt = -1\<close> gives five legs and four altitude entries. The forced 0 is the
  entry of OCEAN, and TUNNA, the last leg, has no entry.
\<close>

lemma set_flight_plan_gap_example:
  "map_sum id (\<lambda>a. (flight_plan_name a, flight_plan_target_alt a))
     (set_flight_plan nav_demo demo_slot (- 1) ''VHHH'' ''RW07R'' ''OCEAN2B'' [] [] [] []
        [''TUNNA''] 0 (- 1))
   = Inr ([[''VHHH RW07R'', ''PORPA'', ''PRAWN'', ''OCEAN'', ''TUNNA'']], [[28, 5000, 5000, 0]])"
  by (simp add: run_defs)


section \<open>The opposite runway\<close>

lemma of_char_digit: "d < 10 \<Longrightarrow> (of_char (digit_char d) :: nat) = 48 + d"
  by (simp add: digit_char_def)

lemma digit_char_is_digit: "d < 10 \<Longrightarrow> is_digit (digit_char d)"
  by (simp add: is_digit_def of_char_digit)

lemma digit_char_neq:
  assumes "d < 10" and "(of_char c :: nat) < 48 \<or> 57 < (of_char c :: nat)"
  shows "digit_char d \<noteq> c"
proof
  assume "digit_char d = c"
  then have "(of_char c :: nat) = 48 + d" using of_char_digit[OF assms(1)] by simp
  with assms show False by arith
qed

lemma digit_char_0: "digit_char 0 = CHR ''0''"
proof -
  have "(of_char (digit_char 0) :: nat) = of_char (CHR ''0'')"
    by (simp add: of_char_digit)
  then show ?thesis by (simp only: of_char_eq_iff)
qed

lemma str_nat_small: "n < 10 \<Longrightarrow> str_nat n = [digit_char n]"
  by (simp add: str_nat.simps)

lemma str_nat_two:
  "10 \<le> n \<Longrightarrow> n < 100 \<Longrightarrow> str_nat n = [digit_char (n div 10), digit_char (n mod 10)]"
  by (subst str_nat.simps) (simp add: str_nat_small)

lemma zfill2_num:
  "n < 100 \<Longrightarrow> zfill 2 (py_str (int n)) = [digit_char (n div 10), digit_char (n mod 10)]"
proof (cases "n < 10")
  case True
  then show ?thesis
    by (simp add: zfill_def py_str_def str_nat_small digit_char_neq digit_char_0)
next
  case False
  assume "n < 100"
  with False have "n div 10 < 10" by simp
  with False \<open>n < 100\<close> show ?thesis
    by (simp add: zfill_def py_str_def str_nat_two digit_char_neq)
qed

lemma py_int_two:
  "n < 100 \<Longrightarrow> py_int [digit_char (n div 10), digit_char (n mod 10)] = Inr (int n)"
proof -
  assume "n < 100"
  then have "n div 10 < 10" "n mod 10 < 10" by simp_all
  then show ?thesis
    by (simp add: py_int_def digit_char_is_digit of_char_digit)
qed

text \<open>The number of the opposite runway is the number plus 18, modulo 36.\<close>

lemma opposite_number: "((n * 10 + 180) mod 360) div 10 = (n + 18) mod (36::int)"
proof -
  have "n * 10 + 180 = (n + 18) * 10" by simp
  moreover have "((n + 18) * 10) mod (36 * 10) = ((n + 18) mod 36) * 10"
    by (rule mod_mult_mult2)
  ultimately have "(n * 10 + 180) mod 360 = ((n + 18) mod 36) * 10" by simp
  then show ?thesis by simp
qed

lemma opposite_runway_digits:
  assumes "n < 100" "length pre = 2"
  shows "opposite_runway (runway_ident pre n s) =
     (let opp = zfill 2 (py_str ((int n + 18) mod 36));
          c = last (digit_char (n mod 10) # s)
      in Inr (if c = CHR ''L'' then opp @ ''R''
              else if c = CHR ''R'' then opp @ ''L''
              else if c = CHR ''C'' then opp @ ''C'' else opp))"
  using assms
  by (simp add: opposite_runway_def runway_ident_def zfill2_num py_int_two then_do_def
      py_last_def opposite_number Let_def)

text \<open>
  C3. For a runway number \<open>n\<close> from 1 to 36 behind a two-character prefix, the opposite
  runway computed by \<open>set_flight_plan\<close> carries the number \<open>m = (n + 18) mod 36\<close>, which is
  180 degrees from \<open>n\<close> (ten degrees per unit), written with two digits; a suffix L
  becomes R, R becomes L, C stays C, and an identifier without suffix gets none.
\<close>

theorem opposite_runway_reciprocal:
  assumes "1 \<le> n" and "n \<le> 36" and "length pre = 2"
  shows "(\<exists>m. m = (n + 18) mod 36 \<and> \<bar>10 * int m - 10 * int n\<bar> = 180 \<and>
     opposite_runway (runway_ident pre n '''') = Inr (zfill 2 (py_str (int m))) \<and>
     opposite_runway (runway_ident pre n ''L'') = Inr (zfill 2 (py_str (int m)) @ ''R'') \<and>
     opposite_runway (runway_ident pre n ''R'') = Inr (zfill 2 (py_str (int m)) @ ''L'') \<and>
     opposite_runway (runway_ident pre n ''C'') = Inr (zfill 2 (py_str (int m)) @ ''C''))"
proof -
  have lt: "n < 100" "n mod 10 < 10" using assms by simp_all
  have m: "int ((n + 18) mod 36) = (int n + 18) mod 36"
    by (simp add: zmod_int)
  have d: "\<bar>10 * int ((n + 18) mod 36) - 10 * int n\<bar> = 180"
    using assms(1,2) by (cases "n < 18") (auto simp: mod_if)
  have nl: "digit_char (n mod 10) \<noteq> CHR ''L''" "digit_char (n mod 10) \<noteq> CHR ''R''"
    "digit_char (n mod 10) \<noteq> CHR ''C''"
    using lt(2) by (simp_all add: digit_char_neq)
  show ?thesis
    using d nl by (simp add: opposite_runway_digits[OF lt(1) assms(3)] m Let_def)
qed

lemma zfill_05: "zfill 2 (py_str 5) = ''05''"
  by code_simp

lemma zfill_23: "zfill 2 (py_str 23) = ''23''"
  by code_simp

lemma ident_05: "runway_ident ''RW'' 5 s = ''RW05'' @ s"
  by (simp add: runway_ident_def zfill_05)

theorem opposite_runway_reciprocal_witness:
  "(1::nat) \<le> 5 \<and> (5::nat) \<le> 36 \<and> length ''RW'' = 2 \<and>
   opposite_runway ''RW05'' = Inr ''23'' \<and> opposite_runway ''RW05L'' = Inr ''23R'' \<and>
   opposite_runway ''RW05R'' = Inr ''23L'' \<and> opposite_runway ''RW05C'' = Inr ''23C''"
  using opposite_runway_reciprocal[of 5 "''RW''"]
  by (simp add: ident_05 zfill_23)

text \<open>
  For runway 18 the computed number is 0, written \<open>00\<close>: 180 degrees from 18 as a
  heading, though runways are numbered from 01 to 36.
\<close>

lemma opposite_of_18: "opposite_runway ''RW18'' = Inr ''00''"
  by code_simp

section \<open>The cross-track correction\<close>

text \<open>
  C5, as amended. The heading correction added to the bearing-to-target is exactly 0
  at cross-track deviation 0, and whenever the magnitude of the deviation is greater
  than 200 meters its magnitude is exactly 20 degrees, with the sign of the deviation.
\<close>

theorem correction_boundary:
  "correction 0 = 0 \<and> (200 < \<bar>x\<bar> \<longrightarrow> \<bar>correction x\<bar> = 20 \<and> sgn (correction x) = sgn x)"
  by (auto simp: correction_def sgn_real_def)

theorem correction_boundary_witness:
  "(200 :: real) < \<bar>- 250\<bar> \<and> \<bar>correction (- 250)\<bar> = 20 \<and>
   sgn (correction (- 250)) = sgn (- 250 :: real)"
  using correction_boundary[of "- 250"] by simp

text \<open>
  At a deviation of exactly 200 meters the test \<open>> 200\<close> of line 507 fails and the
  damped branch applies: the correction is \<open>20 * (1 - exp (- 5))\<close>, less than 20, and
  at \<open>- 200\<close> it is \<open>20 * (1 - exp 5)\<close>, below \<open>- 20\<close>.
\<close>

theorem correction_boundary_counterexample:
  "(200 :: real) \<le> \<bar>200\<bar> \<and> \<bar>correction 200\<bar> \<noteq> 20 \<and> \<bar>correction (- 200)\<bar> \<noteq> 20"
proof -
  have e: "0 < exp (- 5 :: real)" "exp (- 5 :: real) < 1" by simp_all
  have p: "correction 200 = 20 * (1 - exp (- 5))" by (simp add: correction_def)
  have n: "correction (- 200) = 20 * (1 - exp 5)" by (simp add: correction_def)
  have "exp (5 :: real) > 2"
  proof -
    have "(1 :: real) + 5 \<le> exp 5" by (rule exp_ge_add_one_self)
    then show ?thesis by simp
  qed
  then have "\<bar>20 * (1 - exp (5 :: real))\<bar> \<noteq> 20" by simp
  moreover from e have "\<bar>20 * (1 - exp (- 5 :: real))\<bar> \<noteq> 20" by simp
  ultimately show ?thesis using p n by simp
qed

section \<open>The facade: direct-to and holding\<close>

lemma index_of_bound: "index_of xs x = Some k \<Longrightarrow> k < length xs \<and> xs ! k = x"
  by (induction xs arbitrary: k) (auto split: if_splits)

lemma resolve_index_nat:
  "resolve_index self = Inr index \<Longrightarrow>
     \<exists>k. index = int k \<and> k < length (traffic_index (traffic self)) \<and>
         traffic_index (traffic self) ! k = self_index self"
  by (auto simp: resolve_index_def split: option.splits dest: index_of_bound)

lemma py_set_nat: "py_set xs (int k) v = Inr ys \<Longrightarrow> k < length xs \<and> ys = xs[k := v]"
  by (auto simp: py_set_def then_do_def py_index_def split: if_splits)

text \<open>
  C9. \<open>set_direct\<close> gives the same result for any two waypoint arguments. When the
  identity of the aircraft resolves to the slot \<open>k\<close> and the lateral-mode array has
  that slot, the call returns, and the state it returns is the old one with LNAV
  stored at slot \<open>k\<close> of the lateral-mode array. Whenever it returns, nothing else is
  changed: every other entry of that array, every other autopilot field (the target
  positions and the leg pointer among them), the traffic arrays, the identity and the
  vectoring fix are as before. When the identity does not resolve, the call raises,
  and whenever it raises the state is unchanged.
\<close>

theorem set_direct_frame:
  "set_direct self w1 = set_direct self w2 \<and>
   (\<forall>k. resolve_index self = Inr (int k) \<and> k < length (lateral_mode (self_ap self)) \<longrightarrow>
      (\<exists>self'. set_direct self w1 = Inr self' \<and>
         self' = set_ap self ((self_ap self)\<lparr>lateral_mode := (lateral_mode (self_ap self))[k := LNAV]\<rparr>) \<and>
         lateral_mode (self_ap self') ! k = LNAV)) \<and>
   (\<forall>self'. set_direct self w1 = Inr self' \<longrightarrow>
      (\<exists>k. resolve_index self = Inr (int k) \<and> k < length (lateral_mode (self_ap self)) \<and>
         self' = set_ap self ((self_ap self)\<lparr>lateral_mode := (lateral_mode (self_ap self))[k := LNAV]\<rparr>) \<and>
         lateral_mode (self_ap self') ! k = LNAV \<and>
         (\<forall>j. j \<noteq> k \<longrightarrow> lateral_mode (self_ap self') ! j = lateral_mode (self_ap self) ! j) \<and>
         lat (self_ap self') = lat (self_ap self) \<and> long (self_ap self') = long (self_ap self) \<and>
         lat_next (self_ap self') = lat_next (self_ap self) \<and>
         long_next (self_ap self') = long_next (self_ap self) \<and>
         flight_plan_index (self_ap self') = flight_plan_index (self_ap self) \<and>
         flight_plan_name (self_ap self') = flight_plan_name (self_ap self) \<and>
         traffic_lat (traffic self') = traffic_lat (traffic self) \<and>
         traffic_long (traffic self') = traffic_long (traffic self) \<and>
         traffic_index (traffic self') = traffic_index (traffic self) \<and>
         self_index self' = self_index self \<and> vectoring self' = vectoring self)) \<and>
   (\<forall>e. resolve_index self = Inl e \<longrightarrow> set_direct self w1 = Inl (e, self)) \<and>
   (\<forall>e s. set_direct self w1 = Inl (e, s) \<longrightarrow> s = self)"
proof (intro conjI allI impI)
  show "set_direct self w1 = set_direct self w2" by (simp add: set_direct_def)
next
  fix k assume a: "resolve_index self = Inr (int k) \<and> k < length (lateral_mode (self_ap self))"
  then have lm: "py_set (lateral_mode (self_ap self)) (int k) LNAV =
      Inr ((lateral_mode (self_ap self))[k := LNAV])"
    by (simp add: py_set_def py_index_def then_do_def)
  from a lm have r: "set_direct self w1 =
      Inr (set_ap self ((self_ap self)\<lparr>lateral_mode := (lateral_mode (self_ap self))[k := LNAV]\<rparr>))"
    by (simp add: set_direct_def)
  from a have "lateral_mode (self_ap (set_ap self ((self_ap self)\<lparr>lateral_mode :=
      (lateral_mode (self_ap self))[k := LNAV]\<rparr>))) ! k = LNAV"
    by (simp add: set_ap_def self_ap_def)
  with r show "\<exists>self'. set_direct self w1 = Inr self' \<and>
         self' = set_ap self ((self_ap self)\<lparr>lateral_mode := (lateral_mode (self_ap self))[k := LNAV]\<rparr>) \<and>
         lateral_mode (self_ap self') ! k = LNAV"
    by blast
next
  fix self' assume r: "set_direct self w1 = Inr self'"
  then obtain index lm where
    i: "resolve_index self = Inr index" and
    lm: "py_set (lateral_mode (self_ap self)) index LNAV = Inr lm" and
    s: "self' = set_ap self ((self_ap self)\<lparr>lateral_mode := lm\<rparr>)"
    by (auto simp: set_direct_def split: sum.splits)
  from resolve_index_nat[OF i] obtain k where k: "index = int k" by blast
  from py_set_nat[OF lm[unfolded k]] have
    kl: "k < length (lateral_mode (self_ap self))" and
    lmv: "lm = (lateral_mode (self_ap self))[k := LNAV]" by simp_all
  show "\<exists>k. resolve_index self = Inr (int k) \<and> k < length (lateral_mode (self_ap self)) \<and>
         self' = set_ap self ((self_ap self)\<lparr>lateral_mode := (lateral_mode (self_ap self))[k := LNAV]\<rparr>) \<and>
         lateral_mode (self_ap self') ! k = LNAV \<and>
         (\<forall>j. j \<noteq> k \<longrightarrow> lateral_mode (self_ap self') ! j = lateral_mode (self_ap self) ! j) \<and>
         lat (self_ap self') = lat (self_ap self) \<and> long (self_ap self') = long (self_ap self) \<and>
         lat_next (self_ap self') = lat_next (self_ap self) \<and>
         long_next (self_ap self') = long_next (self_ap self) \<and>
         flight_plan_index (self_ap self') = flight_plan_index (self_ap self) \<and>
         flight_plan_name (self_ap self') = flight_plan_name (self_ap self) \<and>
         traffic_lat (traffic self') = traffic_lat (traffic self) \<and>
         traffic_long (traffic self') = traffic_long (traffic self) \<and>
         traffic_index (traffic self') = traffic_index (traffic self) \<and>
         self_index self' = self_index self \<and> vectoring self' = vectoring self"
    using i k kl lmv s by (intro exI[of _ k]) (simp add: set_ap_def self_ap_def)
next
  fix e assume "resolve_index self = Inl e"
  then show "set_direct self w1 = Inl (e, self)" by (simp add: set_direct_def)
next
  fix e s assume "set_direct self w1 = Inl (e, s)"
  then show "s = self" by (auto simp: set_direct_def split: sum.splits)
qed

text \<open>The autopilot of the example, evaluated.\<close>

lemma demo_ap_value:
  "demo_ap =
     \<lparr>alt = [0], heading = [70], track_angle = [70], ap_rate_of_turn = [0],
      cas = [150], mach = [0], vs = [0], fpa = [0], lat = [22], long = [113],
      lat_next = [0], long_next = [0], lat_prev = [0], long_prev = [0],
      hv_next_wp = [True], dist_ap = [0], flight_plan_index = [2],
      flight_plan_enroute = [[]],
      flight_plan_name = [[''VHHH RW07R'', ''PORPA'', ''PRAWN'', ''OCEAN'']],
      flight_plan_lat = [[22, 23, 24, 25]],
      flight_plan_long = [[113, 114, 115, 116]],
      flight_plan_target_alt = [[28, 5000, 5000, 0]],
      flight_plan_target_speed = [[0, - 1, 250, - 1]], procedure_speed = [0],
      speed_mode = [0], auto_throttle_mode = [AUTO], vertical_mode = [0],
      lateral_mode = [LNAV], expedite_descent = [False],
      departure_airport = [''VHHH''], departure_runway = [''RW07R''],
      sid = [''OCEAN2B''], arrival_airport = [[]], arrival_runway = [[]],
      star = [[]], approach = [[]], cruise_alt = [37000],
      flight_plan_updated = [True], holding = [False], holding_round = [0],
      holding_info = [[]]\<rparr>"
  by (simp add: demo_ap_def run_defs)

text \<open>
  The example: the aircraft flies a heading, \<open>set_direct\<close> returns for PRAWN and for
  OCEAN alike, the lateral mode has gone from HEADING to LNAV and the leg pointer is
  as before.
\<close>

theorem set_direct_frame_witness:
  "lateral_mode (self_ap demo_on_heading) = [HEADING] \<and>
   resolve_index demo_on_heading = Inr (int 0) \<and>
   0 < length (lateral_mode (self_ap demo_on_heading)) \<and>
   (\<exists>self'. set_direct demo_on_heading ''PRAWN'' = Inr self' \<and>
      set_direct demo_on_heading ''OCEAN'' = Inr self' \<and>
      lateral_mode (self_ap self') = [LNAV] \<and>
      flight_plan_index (self_ap self') = flight_plan_index (self_ap demo_on_heading) \<and>
      flight_plan_index (self_ap self') = [2])"
proof -
  have m: "lateral_mode (self_ap demo_on_heading) = [HEADING]"
    by (simp add: self_ap_def demo_on_heading_def)
  have i: "resolve_index demo_on_heading = Inr (int 0)"
    by (simp add: resolve_index_def demo_on_heading_def demo_traffic_def)
  have l: "0 < length (lateral_mode (self_ap demo_on_heading))"
    by (simp add: m)
  have p: "flight_plan_index (self_ap demo_on_heading) = [2]"
    by (simp add: self_ap_def demo_on_heading_def demo_ap_value)
  from set_direct_frame[of demo_on_heading "''PRAWN''" "''OCEAN''"] i l
  obtain self' where
    r: "set_direct demo_on_heading ''PRAWN'' = Inr self'" and
    v: "self' = set_ap demo_on_heading ((self_ap demo_on_heading)\<lparr>lateral_mode :=
          (lateral_mode (self_ap demo_on_heading))[0 := LNAV]\<rparr>)"
    by blast
  from set_direct_frame[of demo_on_heading "''PRAWN''" "''OCEAN''"] r
  have o: "set_direct demo_on_heading ''OCEAN'' = Inr self'" by simp
  from v m have n: "lateral_mode (self_ap self') = [LNAV]"
    by (simp add: set_ap_def self_ap_def)
  from v have q: "flight_plan_index (self_ap self') = flight_plan_index (self_ap demo_on_heading)"
    by (simp add: set_ap_def self_ap_def)
  from m i l r o n q p show ?thesis by simp
qed

lemma py_set_in_range: "in_range xs i \<Longrightarrow> \<exists>ys. py_set xs i v = Inr ys \<and> py_get ys i = Inr v"
  by (auto simp: in_range_def py_set_def py_get_def py_index_def then_do_def)

text \<open>
  C8, as amended. With the slot of the aircraft resolved to \<open>index\<close>, \<open>set_holding\<close>
  leaves the requested value in the remaining-rounds counter of the slot whatever
  the navigation database answers. When \<open>Nav.get_holding_procedure\<close> raises \<open>e\<close> for the
  fix and region, \<open>set_holding\<close> raises \<open>e\<close> to its caller with that counter already
  overwritten; the cached holding definition alone is unchanged.
\<close>

theorem set_holding_effect:
  assumes "resolve_index self = Inr index"
    and "in_range (holding_round (self_ap self)) index"
  shows "py_get (holding_round (self_ap (outcome_state
            (set_holding nv self holding_time holding_fix region)))) index = Inr holding_time \<and>
    (\<forall>e. get_holding_procedure nv holding_fix region = Inl e \<longrightarrow>
       (\<exists>s. set_holding nv self holding_time holding_fix region = Inl (e, s) \<and>
          holding_info (self_ap s) = holding_info (self_ap self)))"
proof -
  from py_set_in_range[OF assms(2)] obtain hr where
    hr: "py_set (holding_round (self_ap self)) index holding_time = Inr hr"
        "py_get hr index = Inr holding_time" by blast
  show ?thesis
    using assms(1) hr
    by (auto simp: set_holding_def outcome_state_def set_ap_def self_ap_def Let_def
        split: sum.splits)
qed

theorem set_holding_effect_witness:
  "resolve_index demo_aircraft = Inr 0 \<and>
   in_range (holding_round (self_ap demo_aircraft)) 0 \<and>
   get_holding_procedure nav_demo ''PRAWN'' ''VH'' = Inl NotFound \<and>
   py_get (holding_round (self_ap (outcome_state
            (set_holding nav_demo demo_aircraft 3 ''PRAWN'' ''VH'')))) 0 = Inr 3 \<and>
   (\<exists>s. set_holding nav_demo demo_aircraft 3 ''PRAWN'' ''VH'' = Inl (NotFound, s) \<and>
        holding_info (self_ap s) = holding_info (self_ap demo_aircraft))"
proof -
  have 1: "resolve_index demo_aircraft = Inr 0"
    by (simp add: resolve_index_def demo_aircraft_def demo_traffic_def)
  have 2: "in_range (holding_round (self_ap demo_aircraft)) 0"
    by (simp add: in_range_def self_ap_def demo_aircraft_def demo_traffic_def demo_ap_value)
  have 3: "get_holding_procedure nav_demo ''PRAWN'' ''VH'' = Inl NotFound"
    by (simp add: nav_demo_def)
  from set_holding_effect[OF 1 2, of nav_demo 3 "''PRAWN''" "''VH''"] 1 2 3
  show ?thesis by simp
qed

text \<open>
  The claim as stated fails: the database of the example has no holding definition,
  \<open>set_holding\<close> raises NotFound, and the remaining-rounds counter has gone from 0 to 3.
\<close>

theorem set_holding_counterexample:
  "get_holding_procedure nav_demo ''PRAWN'' ''VH'' = Inl NotFound \<and>
   holding_round (self_ap demo_aircraft) = [0] \<and>
   (\<exists>s. set_holding nav_demo demo_aircraft 3 ''PRAWN'' ''VH'' = Inl (NotFound, s) \<and>
        holding_round (self_ap s) = [3])"
  by (simp add: set_holding_def resolve_index_def demo_aircraft_def demo_traffic_def
      self_ap_def set_ap_def demo_ap_value py_set_def py_index_def then_do_def nav_demo_def)

section \<open>The facade: radar vectoring\<close>

lemma py_get_nat: "py_get xs i = Inr v \<Longrightarrow> 0 \<le> i \<Longrightarrow> nat i < length xs \<and> v = xs ! nat i"
  by (auto simp: py_get_def then_do_def py_index_def split: if_splits)

lemma py_set_nonneg: "py_set xs i v = Inr ys \<Longrightarrow> 0 \<le> i \<Longrightarrow> nat i < length xs \<and> ys = xs[nat i := v]"
  by (auto simp: py_set_def then_do_def py_index_def split: if_splits)

lemma py_insert_nat: "0 \<le> i \<Longrightarrow> nat i < length xs \<Longrightarrow> py_insert xs i v = take (nat i) xs @ v # drop (nat i) xs"
  by (auto simp: py_insert_def Let_def min_def)

lemma drop_update_self: "k < length xs \<Longrightarrow> drop k (xs[k := v]) = v # drop (Suc k) xs"
  by (simp add: Cons_nth_drop_Suc[symmetric])

lemma length_py_insert: "length (py_insert xs i v) = Suc (length xs)"
  by (simp add: py_insert_def Let_def)

lemma count_list_py_insert: "count_list (py_insert xs i v) v = Suc (count_list xs v)"
proof -
  have "count_list (take n xs @ v # drop n xs) v = Suc (count_list xs v)" for n
  proof -
    have "count_list xs v = count_list (take n xs) v + count_list (drop n xs) v"
      using count_list_append[of "take n xs" "drop n xs" v] by (simp only: append_take_drop_id)
    then show ?thesis by simp
  qed
  then show ?thesis by (simp add: py_insert_def Let_def)
qed

text \<open>What the five statements of lines 183 to 191 leave when none of them raises.\<close>

lemma insert_vect_Inr:
  assumes "insert_vect a index lat_v long_v v_2 = Inr a'"
  shows "\<exists>i lats longs names alts speeds alt_i sp1.
     py_get (flight_plan_index a) index = Inr i \<and>
     py_get (flight_plan_lat a) index = Inr lats \<and>
     py_get (flight_plan_lat a') index = Inr (py_insert lats i lat_v) \<and>
     py_get (flight_plan_long a) index = Inr longs \<and>
     py_get (flight_plan_long a') index = Inr (py_insert longs i long_v) \<and>
     py_get (flight_plan_name a) index = Inr names \<and>
     py_get (flight_plan_name a') index = Inr (py_insert names i ''VECT'') \<and>
     py_get (flight_plan_target_alt a) index = Inr alts \<and>
     py_get alts i = Inr alt_i \<and>
     py_get (flight_plan_target_alt a') index = Inr (py_insert alts i alt_i) \<and>
     py_get (flight_plan_target_speed a) index = Inr speeds \<and>
     py_set speeds i v_2 = Inr sp1 \<and>
     py_get (flight_plan_target_speed a') index = Inr (py_insert sp1 i v_2) \<and>
     flight_plan_index a' = flight_plan_index a"
proof -
  from assms obtain i fl fo nm al sp sp2 where
    i: "py_get (flight_plan_index a) index = Inr i" and
    fl: "upd_at (flight_plan_lat a) index (\<lambda>xs. Inr (py_insert xs i lat_v)) = Inr fl" and
    fo: "upd_at (flight_plan_long a) index (\<lambda>xs. Inr (py_insert xs i long_v)) = Inr fo" and
    nm: "upd_at (flight_plan_name a) index (\<lambda>xs. Inr (py_insert xs i ''VECT'')) = Inr nm" and
    al: "upd_at (flight_plan_target_alt a) index
           (\<lambda>xs. then_do (py_get xs i) (\<lambda>v. Inr (py_insert xs i v))) = Inr al" and
    sp: "upd_at (flight_plan_target_speed a) index (\<lambda>xs. py_set xs i v_2) = Inr sp" and
    sp2: "upd_at sp index (\<lambda>xs. then_do (py_get xs i) (\<lambda>v. Inr (py_insert xs i v))) = Inr sp2" and
    a': "a' = a\<lparr>flight_plan_lat := fl, flight_plan_long := fo, flight_plan_name := nm,
              flight_plan_target_alt := al, flight_plan_target_speed := sp2\<rparr>"
    by (auto simp: insert_vect_def Let_def split: sum.splits)
  from upd_at_Inr[OF fl] obtain lats where
    lats: "py_get (flight_plan_lat a) index = Inr lats"
          "py_get fl index = Inr (py_insert lats i lat_v)" by auto
  from upd_at_Inr[OF fo] obtain longs where
    longs: "py_get (flight_plan_long a) index = Inr longs"
           "py_get fo index = Inr (py_insert longs i long_v)" by auto
  from upd_at_Inr[OF nm] obtain names where
    names: "py_get (flight_plan_name a) index = Inr names"
           "py_get nm index = Inr (py_insert names i ''VECT'')" by auto
  from upd_at_Inr[OF al] obtain alts alt_i where
    alts: "py_get (flight_plan_target_alt a) index = Inr alts" "py_get alts i = Inr alt_i"
          "py_get al index = Inr (py_insert alts i alt_i)"
    by (auto simp: then_do_Inr)
  from upd_at_Inr[OF sp] obtain speeds sp1 where
    speeds: "py_get (flight_plan_target_speed a) index = Inr speeds"
            "py_set speeds i v_2 = Inr sp1" "py_get sp index = Inr sp1" by auto
  from upd_at_Inr[OF sp2] speeds(3) obtain v where
    v: "py_get sp1 i = Inr v" "py_get sp2 index = Inr (py_insert sp1 i v)"
    by (auto simp: then_do_Inr)
  from py_set_get[OF speeds(2)] v(1) have "v = v_2" by simp
  with v(2) have "py_get sp2 index = Inr (py_insert sp1 i v_2)" by simp
  with i lats longs names alts speeds show ?thesis unfolding a' by auto
qed

lemma get_next_wp_Some:
  assumes "get_next_wp self = Inr (Some w)"
  shows "\<exists>index i names. resolve_index self = Inr index \<and>
     py_get (flight_plan_index (self_ap self)) index = Inr i \<and>
     py_get (flight_plan_name (self_ap self)) index = Inr names \<and>
     i < int (length names) \<and> py_get names i = Inr w"
  using assms by (auto simp: get_next_wp_def then_do_Inr split: if_splits)

text \<open>A call that passes the guard and returns has run lines 172 to 191 to the end.\<close>

lemma set_vectoring_effect:
  assumes "vectoring self \<noteq> fix" and "get_next_wp self = Inr (Some fix)"
    and "set_vectoring c kts2mps self vectoring_time v_2 fix = Inr self'"
  shows "\<exists>index lat_v long_v a. resolve_index self = Inr index \<and>
     insert_vect (self_ap self) index lat_v long_v v_2 = Inr a \<and>
     self' = set_ap (self\<lparr>vectoring := fix\<rparr>) a"
proof -
  have r: "resolve_index (self\<lparr>vectoring := fix\<rparr>) = resolve_index self"
    by (simp add: resolve_index_def)
  have s: "self_ap (self\<lparr>vectoring := fix\<rparr>) = self_ap self"
    by (simp add: self_ap_def)
  from assms show ?thesis
    by (auto simp: set_vectoring_def Let_def r s split: sum.splits prod.splits)
qed

text \<open>
  C6, as amended. When \<open>set_vectoring\<close> passes its guard and returns, the plan of the
  slot has one more leg in each of its five lists; with the leg pointer \<open>i\<close> (not
  negative) the new leg is at position \<open>i\<close>, immediately before the former current leg,
  which keeps its name \<open>fix\<close> at position \<open>i + 1\<close>. The new leg is named VECT, carries
  the current leg's altitude target and the speed \<open>v_2\<close>. The former current leg keeps
  its altitude target, and its speed target is \<open>v_2\<close> as well: line 189 overwrites it
  before line 190 duplicates the entry. The leg pointer itself is unchanged.
\<close>

theorem set_vectoring_inserts_vect:
  assumes "vectoring self \<noteq> fix" and "get_next_wp self = Inr (Some fix)"
    and "set_vectoring c kts2mps self vectoring_time v_2 fix = Inr self'"
  shows "\<exists>index i names alts speeds lats longs lat_v long_v.
     resolve_index self = Inr index \<and>
     py_get (flight_plan_index (self_ap self)) index = Inr i \<and>
     py_get (flight_plan_name (self_ap self)) index = Inr names \<and>
     py_get names i = Inr fix \<and>
     py_get (flight_plan_target_alt (self_ap self)) index = Inr alts \<and>
     py_get (flight_plan_target_speed (self_ap self)) index = Inr speeds \<and>
     py_get (flight_plan_lat (self_ap self)) index = Inr lats \<and>
     py_get (flight_plan_long (self_ap self)) index = Inr longs \<and>
     py_get (flight_plan_lat (self_ap self')) index = Inr (py_insert lats i lat_v) \<and>
     py_get (flight_plan_long (self_ap self')) index = Inr (py_insert longs i long_v) \<and>
     vectoring self' = fix \<and>
     flight_plan_index (self_ap self') = flight_plan_index (self_ap self) \<and>
     (0 \<le> i \<longrightarrow>
        nat i < length names \<and> nat i < length alts \<and> nat i < length speeds \<and>
        py_get (flight_plan_name (self_ap self')) index
          = Inr (take (nat i) names @ ''VECT'' # drop (nat i) names) \<and>
        py_get (flight_plan_target_alt (self_ap self')) index
          = Inr (take (nat i) alts @ alts ! nat i # drop (nat i) alts) \<and>
        py_get (flight_plan_target_speed (self_ap self')) index
          = Inr (take (nat i) speeds @ v_2 # v_2 # drop (Suc (nat i)) speeds))"
proof -
  from set_vectoring_effect[OF assms] obtain index lat_v long_v a where
    idx: "resolve_index self = Inr index" and
    iv: "insert_vect (self_ap self) index lat_v long_v v_2 = Inr a" and
    s': "self' = set_ap (self\<lparr>vectoring := fix\<rparr>) a" by blast
  have ap': "self_ap self' = a" and vec: "vectoring self' = fix"
    by (simp_all add: s' set_ap_def self_ap_def)
  from insert_vect_Inr[OF iv] obtain i lats longs names alts speeds alt_i sp1 where
    f: "py_get (flight_plan_index (self_ap self)) index = Inr i"
       "py_get (flight_plan_lat (self_ap self)) index = Inr lats"
       "py_get (flight_plan_lat a) index = Inr (py_insert lats i lat_v)"
       "py_get (flight_plan_long (self_ap self)) index = Inr longs"
       "py_get (flight_plan_long a) index = Inr (py_insert longs i long_v)"
       "py_get (flight_plan_name (self_ap self)) index = Inr names"
       "py_get (flight_plan_name a) index = Inr (py_insert names i ''VECT'')"
       "py_get (flight_plan_target_alt (self_ap self)) index = Inr alts"
       "py_get alts i = Inr alt_i"
       "py_get (flight_plan_target_alt a) index = Inr (py_insert alts i alt_i)"
       "py_get (flight_plan_target_speed (self_ap self)) index = Inr speeds"
       "py_set speeds i v_2 = Inr sp1"
       "py_get (flight_plan_target_speed a) index = Inr (py_insert sp1 i v_2)"
       "flight_plan_index a = flight_plan_index (self_ap self)"
    by blast
  from get_next_wp_Some[OF assms(2)] idx f(1) f(6) have fixn: "py_get names i = Inr fix"
    by auto
  have pos: "nat i < length names \<and> nat i < length alts \<and> nat i < length speeds \<and>
        py_get (flight_plan_name a) index
          = Inr (take (nat i) names @ ''VECT'' # drop (nat i) names) \<and>
        py_get (flight_plan_target_alt a) index
          = Inr (take (nat i) alts @ alts ! nat i # drop (nat i) alts) \<and>
        py_get (flight_plan_target_speed a) index
          = Inr (take (nat i) speeds @ v_2 # v_2 # drop (Suc (nat i)) speeds)" if i0: "0 \<le> i"
  proof -
    from py_get_nat[OF fixn i0] have n: "nat i < length names" by simp
    from py_get_nat[OF f(9) i0] have al: "nat i < length alts" "alt_i = alts ! nat i" by simp_all
    from py_set_nonneg[OF f(12) i0] have sp: "nat i < length speeds" "sp1 = speeds[nat i := v_2]"
      by simp_all
    have "py_insert sp1 i v_2 = take (nat i) speeds @ v_2 # v_2 # drop (Suc (nat i)) speeds"
      using sp i0 by (simp add: py_insert_nat drop_update_self)
    with n al sp f(7,10,13) i0 show ?thesis by (simp add: py_insert_nat)
  qed
  show ?thesis
    using idx f(1,2,4,6,8,11) f(3,5) f(14) fixn vec pos unfolding ap' by blast
qed

text \<open>
  C7. When a call of \<open>set_vectoring\<close> for a fix returns, a second call for the same fix
  returns the state unchanged: the aircraft, its traffic store and the whole autopilot
  state are as the first call left them. When the first call passed its guard, the
  plan has exactly one VECT leg more than before the first call, after both calls.
\<close>

theorem set_vectoring_twice:
  assumes "set_vectoring c kts2mps self vectoring_time v_2 fix = Inr self'"
  shows "set_vectoring c kts2mps self' vectoring_time v_2 fix = Inr self' \<and>
    (vectoring self \<noteq> fix \<and> get_next_wp self = Inr (Some fix) \<longrightarrow>
      (\<exists>index names names'. resolve_index self = Inr index \<and>
         py_get (flight_plan_name (self_ap self)) index = Inr names \<and>
         py_get (flight_plan_name (self_ap self')) index = Inr names' \<and>
         length names' = length names + 1 \<and>
         count_list names' ''VECT'' = count_list names ''VECT'' + 1))"
proof (intro conjI impI)
  show "set_vectoring c kts2mps self' vectoring_time v_2 fix = Inr self'"
  proof (cases "vectoring self \<noteq> fix \<and> get_next_wp self = Inr (Some fix)")
    case True
    with set_vectoring_effect[OF _ _ assms] obtain a where
      "self' = set_ap (self\<lparr>vectoring := fix\<rparr>) a" by blast
    then have "vectoring self' = fix" by (simp add: set_ap_def)
    then show ?thesis by (simp add: set_vectoring_def)
  next
    case False
    with assms have "self' = self"
      by (auto simp: set_vectoring_def split: sum.splits if_splits)
    with assms show ?thesis by simp
  qed
next
  assume g: "vectoring self \<noteq> fix \<and> get_next_wp self = Inr (Some fix)"
  with set_vectoring_effect[OF _ _ assms] obtain index lat_v long_v a where
    idx: "resolve_index self = Inr index" and
    iv: "insert_vect (self_ap self) index lat_v long_v v_2 = Inr a" and
    s': "self' = set_ap (self\<lparr>vectoring := fix\<rparr>) a" by blast
  have ap': "self_ap self' = a" by (simp add: s' set_ap_def self_ap_def)
  from insert_vect_Inr[OF iv] obtain i names where
    "py_get (flight_plan_name (self_ap self)) index = Inr names"
    "py_get (flight_plan_name a) index = Inr (py_insert names i ''VECT'')" by blast
  with idx show "\<exists>index names names'. resolve_index self = Inr index \<and>
         py_get (flight_plan_name (self_ap self)) index = Inr names \<and>
         py_get (flight_plan_name (self_ap self')) index = Inr names' \<and>
         length names' = length names + 1 \<and>
         count_list names' ''VECT'' = count_list names ''VECT'' + 1"
    unfolding ap' by (auto simp: length_py_insert count_list_py_insert)
qed

text \<open>
  The example: the aircraft's next waypoint is PRAWN, with speed target 250 and
  altitude target 5000; it is vectored for 60 seconds with target speed 200.
\<close>

lemma demo_next_wp: "get_next_wp demo_aircraft = Inr (Some ''PRAWN'')"
  by (simp add: get_next_wp_def resolve_index_def demo_aircraft_def demo_traffic_def
      self_ap_def demo_ap_value py_get_def py_index_def then_do_def)

lemma demo_resolve: "resolve_index demo_aircraft = Inr 0"
  by (simp add: resolve_index_def demo_aircraft_def demo_traffic_def)

lemma demo_plan_get:
  "py_get (flight_plan_index (self_ap demo_aircraft)) 0 = Inr 2 \<and>
   py_get (flight_plan_name (self_ap demo_aircraft)) 0
     = Inr [''VHHH RW07R'', ''PORPA'', ''PRAWN'', ''OCEAN''] \<and>
   py_get (flight_plan_target_alt (self_ap demo_aircraft)) 0 = Inr [28, 5000, 5000, 0] \<and>
   py_get (flight_plan_target_speed (self_ap demo_aircraft)) 0 = Inr [0, - 1, 250, - 1]"
  by (simp add: self_ap_def demo_aircraft_def demo_traffic_def demo_ap_value py_get_def
      py_index_def then_do_def)

lemma demo_vectoring_run:
  "map_sum id (\<lambda>s. (vectoring s, flight_plan_name (self_ap s), flight_plan_target_alt (self_ap s),
       flight_plan_target_speed (self_ap s), flight_plan_index (self_ap s)))
     (set_vectoring cal_demo (\<lambda>x. x / 2) demo_aircraft 60 200 ''PRAWN'')
   = Inr (''PRAWN'', [[''VHHH RW07R'', ''PORPA'', ''VECT'', ''PRAWN'', ''OCEAN'']],
          [[28, 5000, 5000, 5000, 0]], [[0, - 1, 200, 200, - 1]], [2])"
  by (simp add: set_vectoring_def get_next_wp_def Let_def vect_position_def insert_vect_def
      resolve_index_def demo_aircraft_def demo_traffic_def self_ap_def set_ap_def demo_ap_value
      upd_at_def py_get_def py_set_def py_index_def py_insert_def then_do_def cal_demo_def)

lemma demo_vectoring_result:
  "\<exists>self'. set_vectoring cal_demo (\<lambda>x. x / 2) demo_aircraft 60 200 ''PRAWN'' = Inr self' \<and>
     vectoring self' = ''PRAWN'' \<and>
     flight_plan_name (self_ap self') = [[''VHHH RW07R'', ''PORPA'', ''VECT'', ''PRAWN'', ''OCEAN'']] \<and>
     flight_plan_target_alt (self_ap self') = [[28, 5000, 5000, 5000, 0]] \<and>
     flight_plan_target_speed (self_ap self') = [[0, - 1, 200, 200, - 1]] \<and>
     flight_plan_index (self_ap self') = [2]"
  using demo_vectoring_run
  by (cases "set_vectoring cal_demo (\<lambda>x. x / 2) demo_aircraft 60 200 ''PRAWN''") auto

theorem set_vectoring_inserts_vect_witness:
  "vectoring demo_aircraft \<noteq> ''PRAWN'' \<and>
   get_next_wp demo_aircraft = Inr (Some ''PRAWN'') \<and>
   (\<exists>self'. set_vectoring cal_demo (\<lambda>x. x / 2) demo_aircraft 60 200 ''PRAWN'' = Inr self' \<and>
      vectoring self' = ''PRAWN'' \<and>
      py_get (flight_plan_name (self_ap self')) 0
        = Inr [''VHHH RW07R'', ''PORPA'', ''VECT'', ''PRAWN'', ''OCEAN''] \<and>
      py_get (flight_plan_target_alt (self_ap self')) 0 = Inr [28, 5000, 5000, 5000, 0] \<and>
      py_get (flight_plan_target_speed (self_ap self')) 0 = Inr [0, - 1, 200, 200, - 1])"
proof -
  have g1: "vectoring demo_aircraft \<noteq> ''PRAWN''" by (simp add: demo_aircraft_def)
  from demo_vectoring_result obtain self' where
    r: "set_vectoring cal_demo (\<lambda>x. x / 2) demo_aircraft 60 200 ''PRAWN'' = Inr self'" by blast
  from set_vectoring_inserts_vect[OF g1 demo_next_wp r] obtain index i names alts speeds where
    t: "resolve_index demo_aircraft = Inr index"
       "py_get (flight_plan_index (self_ap demo_aircraft)) index = Inr i"
       "py_get (flight_plan_name (self_ap demo_aircraft)) index = Inr names"
       "py_get (flight_plan_target_alt (self_ap demo_aircraft)) index = Inr alts"
       "py_get (flight_plan_target_speed (self_ap demo_aircraft)) index = Inr speeds"
       "vectoring self' = ''PRAWN''"
       "0 \<le> i \<longrightarrow>
        nat i < length names \<and> nat i < length alts \<and> nat i < length speeds \<and>
        py_get (flight_plan_name (self_ap self')) index
          = Inr (take (nat i) names @ ''VECT'' # drop (nat i) names) \<and>
        py_get (flight_plan_target_alt (self_ap self')) index
          = Inr (take (nat i) alts @ alts ! nat i # drop (nat i) alts) \<and>
        py_get (flight_plan_target_speed (self_ap self')) index
          = Inr (take (nat i) speeds @ 200 # 200 # drop (Suc (nat i)) speeds)"
    by blast
  from t(1) demo_resolve have index: "index = 0" by simp
  from t(2,3,4,5) demo_plan_get have v: "i = 2"
    "names = [''VHHH RW07R'', ''PORPA'', ''PRAWN'', ''OCEAN'']"
    "alts = [28, 5000, 5000, 0]" "speeds = [0, - 1, 250, - 1]"
    unfolding index by simp_all
  have n2: "nat 2 = Suc (Suc 0)" by simp
  from t(7) have
    "py_get (flight_plan_name (self_ap self')) 0
        = Inr [''VHHH RW07R'', ''PORPA'', ''VECT'', ''PRAWN'', ''OCEAN'']"
    "py_get (flight_plan_target_alt (self_ap self')) 0 = Inr [28, 5000, 5000, 5000, 0]"
    "py_get (flight_plan_target_speed (self_ap self')) 0 = Inr [0, - 1, 200, 200, - 1]"
    unfolding index v by (simp_all add: n2)
  with g1 demo_next_wp r t(6) show ?thesis by blast
qed

text \<open>
  The claim as stated fails on the speed: before the call PRAWN, the current leg, has
  the speed target 250; after it PRAWN follows the VECT leg and has the speed target
  200, the vectoring speed.
\<close>

theorem set_vectoring_inserts_vect_counterexample:
  "py_get (flight_plan_name (self_ap demo_aircraft)) 0
     = Inr [''VHHH RW07R'', ''PORPA'', ''PRAWN'', ''OCEAN''] \<and>
   py_get (flight_plan_target_speed (self_ap demo_aircraft)) 0 = Inr [0, - 1, 250, - 1] \<and>
   py_get (flight_plan_index (self_ap demo_aircraft)) 0 = Inr 2 \<and>
   (\<exists>self'. set_vectoring cal_demo (\<lambda>x. x / 2) demo_aircraft 60 200 ''PRAWN'' = Inr self' \<and>
      flight_plan_name (self_ap self') = [[''VHHH RW07R'', ''PORPA'', ''VECT'', ''PRAWN'', ''OCEAN'']] \<and>
      flight_plan_target_speed (self_ap self') = [[0, - 1, 200, 200, - 1]]) \<and>
   [0, - 1, 200, 200, - 1 :: real] ! 3 \<noteq> [0, - 1, 250, - 1] ! 2"
proof -
  from demo_vectoring_result have
    "\<exists>self'. set_vectoring cal_demo (\<lambda>x. x / 2) demo_aircraft 60 200 ''PRAWN'' = Inr self' \<and>
      flight_plan_name (self_ap self') = [[''VHHH RW07R'', ''PORPA'', ''VECT'', ''PRAWN'', ''OCEAN'']] \<and>
      flight_plan_target_speed (self_ap self') = [[0, - 1, 200, 200, - 1]]" by blast
  moreover have "[0, - 1, 200, 200, - 1 :: real] ! 3 \<noteq> [0, - 1, 250, - 1] ! 2"
    by (simp add: numeral_3_eq_3 numeral_2_eq_2)
  ultimately show ?thesis using demo_plan_get by blast
qed

theorem set_vectoring_twice_witness:
  "\<exists>self'. set_vectoring cal_demo (\<lambda>x. x / 2) demo_aircraft 60 200 ''PRAWN'' = Inr self' \<and>
     set_vectoring cal_demo (\<lambda>x. x / 2) self' 60 200 ''PRAWN'' = Inr self' \<and>
     flight_plan_name (self_ap self') = [[''VHHH RW07R'', ''PORPA'', ''VECT'', ''PRAWN'', ''OCEAN'']] \<and>
     count_list [''VHHH RW07R'', ''PORPA'', ''VECT'', ''PRAWN'', ''OCEAN''] ''VECT'' = 1"
proof -
  from demo_vectoring_result obtain self' where
    r: "set_vectoring cal_demo (\<lambda>x. x / 2) demo_aircraft 60 200 ''PRAWN'' = Inr self'" and
    n: "flight_plan_name (self_ap self') = [[''VHHH RW07R'', ''PORPA'', ''VECT'', ''PRAWN'', ''OCEAN'']]"
    by blast
  from set_vectoring_twice[OF r]
  have "set_vectoring cal_demo (\<lambda>x. x / 2) self' 60 200 ''PRAWN'' = Inr self'" by blast
  moreover have "count_list [''VHHH RW07R'', ''PORPA'', ''VECT'', ''PRAWN'', ''OCEAN''] ''VECT'' = 1"
    by simp
  ultimately show ?thesis using r n by blast
qed

section \<open>The cached distance in the per-tick update\<close>

lemma py_get_int: "py_get xs (int k) = Inr v \<Longrightarrow> k < length xs \<and> v = xs ! k"
  by (auto simp: py_get_def then_do_def py_index_def split: if_splits)

text \<open>
  The leg-tracking loop assigns neither the leg pointers, nor the flags, nor the
  cached distances, nor the holding state.
\<close>

lemma track_leg_position_frame:
  assumes "track_leg_position ap i val = Inr ap'"
  shows "flight_plan_index ap' = flight_plan_index ap \<and>
         flight_plan_updated ap' = flight_plan_updated ap \<and> dist_ap ap' = dist_ap ap \<and>
         holding ap' = holding ap \<and> holding_info ap' = holding_info ap"
  using assms unfolding track_leg_position_def
  by (auto elim!: then_do_frame)

lemma track_leg_next_frame:
  assumes "track_leg_next ap i val n = Inr ap'"
  shows "flight_plan_index ap' = flight_plan_index ap \<and>
         flight_plan_updated ap' = flight_plan_updated ap \<and> dist_ap ap' = dist_ap ap \<and>
         holding ap' = holding ap \<and> holding_info ap' = holding_info ap"
  using assms unfolding track_leg_next_def
  by (auto split: if_splits elim!: then_do_frame)

lemma track_leg_alt_frame:
  assumes "track_leg_alt ap i val = Inr ap'"
  shows "flight_plan_index ap' = flight_plan_index ap \<and>
         flight_plan_updated ap' = flight_plan_updated ap \<and> dist_ap ap' = dist_ap ap \<and>
         holding ap' = holding ap \<and> holding_info ap' = holding_info ap"
  using assms unfolding track_leg_alt_def
  by (auto split: if_splits elim!: then_do_frame)

lemma track_leg_frame:
  assumes "track_leg ap i = Inr ap'"
  shows "flight_plan_index ap' = flight_plan_index ap \<and>
         flight_plan_updated ap' = flight_plan_updated ap \<and> dist_ap ap' = dist_ap ap \<and>
         holding ap' = holding ap \<and> holding_info ap' = holding_info ap"
  using assms unfolding track_leg_def
  by (auto split: if_splits elim!: then_do_frame
      dest!: track_leg_position_frame track_leg_next_frame track_leg_alt_frame)

lemma track_legs_frame:
  "track_legs ap slots = Inr ap' \<Longrightarrow>
     flight_plan_index ap' = flight_plan_index ap \<and>
     flight_plan_updated ap' = flight_plan_updated ap \<and> dist_ap ap' = dist_ap ap \<and>
     holding ap' = holding ap \<and> holding_info ap' = holding_info ap"
proof (induction slots arbitrary: ap)
  case Nil
  then show ?case by simp
next
  case (Cons i slots)
  from Cons.prems obtain ap1 where
    a: "track_leg ap i = Inr ap1" and b: "track_legs ap1 slots = Inr ap'"
    by (auto simp: then_do_Inr)
  from track_leg_frame[OF a] Cons.IH[OF b] show ?case by simp
qed

text \<open>The speed statements assign the procedural speed, the speed targets and the speed mode.\<close>

lemma speed_targets_frame:
  "lat (speed_targets u en tr ap) = lat ap"
  "long (speed_targets u en tr ap) = long ap"
  "lat_next (speed_targets u en tr ap) = lat_next ap"
  "long_next (speed_targets u en tr ap) = long_next ap"
  "hv_next_wp (speed_targets u en tr ap) = hv_next_wp ap"
  "track_angle (speed_targets u en tr ap) = track_angle ap"
  "lateral_mode (speed_targets u en tr ap) = lateral_mode ap"
  "dist_ap (speed_targets u en tr ap) = dist_ap ap"
  "flight_plan_updated (speed_targets u en tr ap) = flight_plan_updated ap"
  "flight_plan_index (speed_targets u en tr ap) = flight_plan_index ap"
  "holding (speed_targets u en tr ap) = holding ap"
  "holding_info (speed_targets u en tr ap) = holding_info ap"
  by (simp_all add: speed_targets_def Let_def)

lemma speed_targets_locals:
  "dist_km c tr (speed_targets u en tr ap) i = dist_km c tr ap i"
  "next_track_angle c (speed_targets u en tr ap) i = next_track_angle c ap i"
  "update_next_wp c tr (speed_targets u en tr ap) i = update_next_wp c tr ap i"
  by (simp_all add: dist_km_def next_track_angle_def update_next_wp_def dist_baseline_def
      speed_targets_frame)

lemma guidance_slot:
  assumes "i < length (flight_plan_index ap)"
  shows "dist_ap (guidance c tr turn_radius ap) ! i =
           (if update_next_wp c tr ap i
            then cal_great_circle_dist c (traffic_lat tr ! i) (traffic_long tr ! i)
                   (lat_next ap ! i) (long_next ap ! i)
            else dist_km c tr ap i)"
    and "flight_plan_updated (guidance c tr turn_radius ap) ! i = False"
    and "flight_plan_index (guidance c tr turn_radius ap) ! i =
           (if update_next_wp c tr ap i then flight_plan_index ap ! i + 1
            else flight_plan_index ap ! i)"
  using assms by (simp_all add: guidance_def Let_def)

lemma guidance_frame:
  "holding (guidance c tr turn_radius ap) = holding ap"
  "holding_info (guidance c tr turn_radius ap) = holding_info ap"
  by (simp_all add: guidance_def Let_def)

text \<open>
  The holding loop assigns neither the cached distances nor the flags, and the body
  for slot \<open>j\<close> leaves the leg pointer and the holding state of every other slot.
\<close>

lemma turn_outbound_frame:
  assumes "turn_outbound ap j = Inr ap'"
  shows "dist_ap ap' = dist_ap ap \<and> flight_plan_updated ap' = flight_plan_updated ap \<and>
         flight_plan_index ap' = flight_plan_index ap \<and> holding ap' = holding ap \<and>
         holding_info ap' = holding_info ap \<and> lateral_mode ap' = lateral_mode ap"
  using assms unfolding turn_outbound_def
  by (auto elim!: then_do_frame)

lemma hold_enter_frame:
  assumes "hold_enter ap j = Inr ap'"
  shows "dist_ap ap' = dist_ap ap \<and> flight_plan_updated ap' = flight_plan_updated ap \<and>
         holding_info ap' = holding_info ap \<and>
         (\<forall>i. i \<noteq> j \<longrightarrow> flight_plan_index ap' ! i = flight_plan_index ap ! i \<and>
                        holding ap' ! i = holding ap ! i)"
  using assms unfolding hold_enter_def
  by (auto elim!: then_do_frame dest!: turn_outbound_frame py_set_nat)

lemma hold_outbound_frame:
  assumes "hold_outbound c dists ap j = Inr ap'"
  shows "dist_ap ap' = dist_ap ap \<and> flight_plan_updated ap' = flight_plan_updated ap \<and>
         flight_plan_index ap' = flight_plan_index ap \<and> holding ap' = holding ap \<and>
         holding_info ap' = holding_info ap"
  using assms unfolding hold_outbound_def
  by (auto split: if_splits elim!: then_do_frame dest!: turn_outbound_frame)

lemma hold_inbound_frame:
  assumes "hold_inbound c u dists ap j = Inr ap'"
  shows "dist_ap ap' = dist_ap ap \<and> flight_plan_updated ap' = flight_plan_updated ap \<and>
         flight_plan_index ap' = flight_plan_index ap \<and>
         (\<forall>i. i \<noteq> j \<longrightarrow> holding ap' ! i = holding ap ! i \<and>
                        holding_info ap' ! i = holding_info ap ! i)"
  using assms unfolding hold_inbound_def
  by (auto split: if_splits elim!: then_do_frame dest!: py_set_nat)

lemma hold_slot_frame:
  assumes "hold_slot c u dists ap j = Inr ap'"
  shows "dist_ap ap' = dist_ap ap \<and> flight_plan_updated ap' = flight_plan_updated ap \<and>
         (\<forall>i. i \<noteq> j \<longrightarrow> flight_plan_index ap' ! i = flight_plan_index ap ! i \<and>
                        holding ap' ! i = holding ap ! i \<and>
                        holding_info ap' ! i = holding_info ap ! i)"
proof -
  from assms have
    "ap' = ap \<or> hold_enter ap j = Inr ap' \<or>
     (\<exists>ap1. hold_outbound c dists ap j = Inr ap1 \<and> hold_inbound c u dists ap1 j = Inr ap')"
    unfolding hold_slot_def by (auto split: if_splits elim!: then_do_frame)
  then show ?thesis
    by (auto dest!: hold_enter_frame hold_outbound_frame hold_inbound_frame)
qed

text \<open>A slot that is not holding and has no holding definition cached is left as it is.\<close>

lemma hold_slot_idle:
  assumes "hold_slot c u dists ap i = Inr ap'"
    and "holding ap ! i = False" and "holding_info ap ! i = []"
  shows "ap' = ap"
proof -
  from assms(1) obtain h where h: "py_get (holding ap) (int i) = Inr h" and
    r: "(if h = False
         then then_do (hold_entry_due c ap i) (\<lambda>due. if due then hold_enter ap i else Inr ap)
         else then_do (hold_outbound c dists ap i) (\<lambda>ap1. hold_inbound c u dists ap1 i)) = Inr ap'"
    unfolding hold_slot_def by (auto elim!: then_do_frame)
  from py_get_int[OF h] assms(2) have "h = False" by simp
  with r obtain due where d: "hold_entry_due c ap i = Inr due" and
    e: "(if due then hold_enter ap i else Inr ap) = Inr ap'"
    by (auto elim!: then_do_frame)
  from d obtain info where i: "py_get (holding_info ap) (int i) = Inr info" and
    f: "(if info = [] then Inr False
         else
           then_do (py_get (heading ap) (int i)) (\<lambda>heading0.
           then_do (holding_course ap i) (\<lambda>course.
             if \<bar>cal_angle_diff c heading0 course\<bar> < 90 then
               then_do (py_get (flight_plan_index ap) (int i)) (\<lambda>val.
               then_do (py_get (flight_plan_name ap) (int i)) (\<lambda>names.
               then_do (py_get info 0) (\<lambda>holding_fix.
               then_do (py_list_index names holding_fix) (\<lambda>k. Inr (val > k)))))
             else Inr False))) = Inr due"
    unfolding hold_entry_due_def by (elim then_do_frame) blast
  from py_get_int[OF i] assms(3) have "info = []" by simp
  with f have "due = False" by simp
  with e show ?thesis by simp
qed

lemma hold_slots_frame:
  "hold_slots c u dists ap slots = Inr ap' \<Longrightarrow>
     dist_ap ap' = dist_ap ap \<and> flight_plan_updated ap' = flight_plan_updated ap"
proof (induction slots arbitrary: ap)
  case Nil
  then show ?case by simp
next
  case (Cons j slots)
  from Cons.prems obtain ap1 where
    a: "hold_slot c u dists ap j = Inr ap1" and b: "hold_slots c u dists ap1 slots = Inr ap'"
    by (auto simp: then_do_Inr)
  from hold_slot_frame[OF a] Cons.IH[OF b] show ?case by simp
qed

lemma hold_slots_idle:
  "hold_slots c u dists ap slots = Inr ap' \<Longrightarrow>
   holding ap ! i = False \<Longrightarrow> holding_info ap ! i = [] \<Longrightarrow>
     flight_plan_index ap' ! i = flight_plan_index ap ! i"
proof (induction slots arbitrary: ap)
  case Nil
  then show ?case by simp
next
  case (Cons j slots)
  from Cons.prems(1) obtain ap1 where
    a: "hold_slot c u dists ap j = Inr ap1" and b: "hold_slots c u dists ap1 slots = Inr ap'"
    by (auto simp: then_do_Inr)
  have s: "flight_plan_index ap1 ! i = flight_plan_index ap ! i \<and>
           holding ap1 ! i = holding ap ! i \<and> holding_info ap1 ! i = holding_info ap ! i"
  proof (cases "i = j")
    case True
    with hold_slot_idle[OF a[folded True] Cons.prems(2,3)] show ?thesis by simp
  next
    case False
    with hold_slot_frame[OF a] show ?thesis by simp
  qed
  with Cons.prems(2,3) have "holding ap1 ! i = False" "holding_info ap1 ! i = []" by simp_all
  from Cons.IH[OF b this] s show ?case by simp
qed

text \<open>
  C4, as amended. Let \<open>ap1\<close> be the autopilot state after the leg-tracking loop of the
  tick, \<open>fresh\<close> the distance from the position of the aircraft to its current target,
  \<open>baseline\<close> the value line 491 leaves in the cache (\<open>fresh\<close> when the flag is set, the
  cached distance when it is clear), and \<open>advance\<close> the waypoint-advance condition of
  line 521: lateral mode LNAV, \<open>fresh\<close> greater than \<open>baseline\<close>, heading within one degree
  of the next track angle. A tick overwrites the cached distance of every aircraft:
  with the distance to the next-leg target when \<open>advance\<close> holds, with \<open>fresh\<close> when it
  does not, whether the flag was set or clear; with the flag set it is \<open>fresh\<close>. The
  tick leaves the flag clear. For an aircraft that neither holds nor has a holding
  definition cached, the leg pointer moves on by one exactly when \<open>advance\<close> holds.
\<close>

theorem update_overwrites_dist:
  assumes "update c u en tr = Inr tr'"
    and "i < length (flight_plan_index (traffic_ap tr))"
  shows "\<exists>ap1.
     track_legs (traffic_ap tr) [0..<length (flight_plan_index (traffic_ap tr))] = Inr ap1 \<and>
     (let fresh = cal_great_circle_dist c (traffic_lat tr ! i) (traffic_long tr ! i)
                    (lat ap1 ! i) (long ap1 ! i);
          baseline = (if flight_plan_updated (traffic_ap tr) ! i then fresh
                      else dist_ap (traffic_ap tr) ! i);
          advance = (lateral_mode ap1 ! i = LNAV \<and> fresh > baseline \<and>
                     \<bar>cal_angle_diff c (traffic_heading tr ! i) (next_track_angle c ap1 i)\<bar> < 1)
      in dist_ap (traffic_ap tr') ! i =
           (if advance
            then cal_great_circle_dist c (traffic_lat tr ! i) (traffic_long tr ! i)
                   (lat_next ap1 ! i) (long_next ap1 ! i)
            else fresh) \<and>
         (flight_plan_updated (traffic_ap tr) ! i \<longrightarrow> dist_ap (traffic_ap tr') ! i = fresh) \<and>
         flight_plan_updated (traffic_ap tr') ! i = False \<and>
         (i < length (holding (traffic_ap tr)) \<and> holding (traffic_ap tr) ! i = False \<and>
          i < length (holding_info (traffic_ap tr)) \<and> holding_info (traffic_ap tr) ! i = [] \<longrightarrow>
            flight_plan_index (traffic_ap tr') ! i =
              (if advance then flight_plan_index (traffic_ap tr) ! i + 1
               else flight_plan_index (traffic_ap tr) ! i)))"
proof -
  define ap0 where "ap0 = traffic_ap tr"
  from assms(1) obtain ap1 ap4 where
    t: "track_legs ap0 [0..<length (flight_plan_index ap0)] = Inr ap1" and
    h: "hold_slots c u
          (map (dist_km c tr (speed_targets u en tr ap1))
             [0..<length (flight_plan_index (speed_targets u en tr ap1))])
          (guidance c tr (turn_radius_km u tr) (speed_targets u en tr ap1))
          [0..<length (holding (guidance c tr (turn_radius_km u tr) (speed_targets u en tr ap1)))]
        = Inr ap4" and
    r: "traffic_ap tr' = ap4"
    unfolding update_def ap0_def by (auto simp: Let_def elim!: then_do_frame)
  define ap2 where "ap2 = speed_targets u en tr ap1"
  define ap3 where "ap3 = guidance c tr (turn_radius_km u tr) ap2"
  from track_legs_frame[OF t] have
    f: "flight_plan_index ap1 = flight_plan_index ap0"
       "flight_plan_updated ap1 = flight_plan_updated ap0"
       "dist_ap ap1 = dist_ap ap0" "holding ap1 = holding ap0"
       "holding_info ap1 = holding_info ap0" by simp_all
  from assms(2) f(1) have i: "i < length (flight_plan_index ap2)"
    by (simp add: ap2_def ap0_def speed_targets_frame)
  define fresh where "fresh = cal_great_circle_dist c (traffic_lat tr ! i) (traffic_long tr ! i)
                    (lat ap1 ! i) (long ap1 ! i)"
  define baseline where "baseline = (if flight_plan_updated ap0 ! i then fresh else dist_ap ap0 ! i)"
  define advance where "advance = (lateral_mode ap1 ! i = LNAV \<and> fresh > baseline \<and>
                     \<bar>cal_angle_diff c (traffic_heading tr ! i) (next_track_angle c ap1 i)\<bar> < 1)"
  have dk: "dist_km c tr ap2 i = fresh"
    by (simp add: ap2_def speed_targets_frame dist_km_def fresh_def)
  have un: "update_next_wp c tr ap2 i = advance"
    by (simp add: ap2_def speed_targets_frame update_next_wp_def dist_baseline_def dist_km_def
        next_track_angle_def advance_def baseline_def fresh_def f)
  from hold_slots_frame[OF h] have
    k: "dist_ap ap4 = dist_ap ap3" "flight_plan_updated ap4 = flight_plan_updated ap3"
    by (simp_all add: ap3_def ap2_def)
  have d: "dist_ap ap4 ! i =
       (if advance
        then cal_great_circle_dist c (traffic_lat tr ! i) (traffic_long tr ! i)
               (lat_next ap1 ! i) (long_next ap1 ! i)
        else fresh)"
    using guidance_slot(1)[OF i, of c tr "turn_radius_km u tr"]
    by (simp add: k ap3_def un dk) (simp add: ap2_def speed_targets_frame)
  have g: "flight_plan_updated ap4 ! i = False"
    using guidance_slot(2)[OF i, of c tr "turn_radius_km u tr"] by (simp add: k ap3_def)
  have w: "flight_plan_updated ap0 ! i \<longrightarrow> dist_ap ap4 ! i = fresh"
    by (simp add: d advance_def baseline_def)
  have p: "flight_plan_index ap4 ! i =
             (if advance then flight_plan_index ap0 ! i + 1 else flight_plan_index ap0 ! i)"
    if q: "i < length (holding ap0) \<and> holding ap0 ! i = False \<and>
           i < length (holding_info ap0) \<and> holding_info ap0 ! i = []"
  proof -
    from q f have "holding ap3 ! i = False" "holding_info ap3 ! i = []"
      by (simp_all add: ap3_def ap2_def guidance_frame speed_targets_frame)
    from hold_slots_idle[OF h[folded ap2_def, folded ap3_def] this]
    have "flight_plan_index ap4 ! i = flight_plan_index ap3 ! i" .
    also have "\<dots> = (if advance then flight_plan_index ap2 ! i + 1 else flight_plan_index ap2 ! i)"
      using guidance_slot(3)[OF i, of c tr "turn_radius_km u tr"] by (simp add: ap3_def un)
    finally show ?thesis by (simp add: ap2_def speed_targets_frame f)
  qed
  from d w g p have "dist_ap ap4 ! i =
           (if advance
            then cal_great_circle_dist c (traffic_lat tr ! i) (traffic_long tr ! i)
                   (lat_next ap1 ! i) (long_next ap1 ! i)
            else fresh) \<and>
         (flight_plan_updated ap0 ! i \<longrightarrow> dist_ap ap4 ! i = fresh) \<and>
         flight_plan_updated ap4 ! i = False \<and>
         (i < length (holding ap0) \<and> holding ap0 ! i = False \<and>
          i < length (holding_info ap0) \<and> holding_info ap0 ! i = [] \<longrightarrow>
            flight_plan_index ap4 ! i =
              (if advance then flight_plan_index ap0 ! i + 1 else flight_plan_index ap0 ! i))"
    by blast
  with t show ?thesis
    unfolding Let_def r advance_def baseline_def fresh_def ap0_def by blast
qed

text \<open>The ticks of the examples, evaluated.\<close>

lemmas tick_defs = update_def track_leg_def track_leg_position_def track_leg_next_def
  track_leg_alt_def speed_targets_def guidance_def turn_radius_km_def vertical_modes_def
  update_next_wp_def dist_km_def dist_baseline_def next_track_angle_def lnav_track_angle_def
  turn_dist_def curr_track_angle_def cross_track_def correction_def deg2rad_def
  hold_slot_def hold_entry_due_def hold_enter_def turn_outbound_def holding_course_def
  py_num_def py_list_index_def np_mod_def
  demo_traffic_def demo_ap_value cal_demo_def unit_demo_def enum_demo_def weather_demo_def
  perf_demo_def py_get_def py_set_def py_index_def then_do_def Let_def

lemma demo_tick:
  "map_sum id (\<lambda>t. (dist_ap (traffic_ap t), flight_plan_index (traffic_ap t),
       flight_plan_updated (traffic_ap t))) (update cal_demo unit_demo enum_demo demo_enroute)
   = Inr ([4], [2], [False])"
  by (simp add: demo_enroute_def tick_defs)

lemma demo_passing_tick:
  "map_sum id (\<lambda>t. (dist_ap (traffic_ap t), flight_plan_index (traffic_ap t),
       flight_plan_updated (traffic_ap t))) (update cal_demo unit_demo enum_demo demo_passing)
   = Inr ([6], [3], [False])"
  by (simp add: demo_passing_def tick_defs)

text \<open>
  The first example: an aircraft in LNAV past PRAWN, flag clear, cached distance 3,
  fresh distance 4, heading on the next track. The waypoint-advance condition holds,
  the leg pointer goes from 2 to 3 and the cache takes the distance 6 to OCEAN.
\<close>

lemma demo_passing_state:
  "flight_plan_updated (traffic_ap demo_passing) = [False] \<and>
   dist_ap (traffic_ap demo_passing) = [3] \<and>
   flight_plan_index (traffic_ap demo_passing) = [2] \<and>
   holding (traffic_ap demo_passing) = [False] \<and>
   holding_info (traffic_ap demo_passing) = [[]] \<and>
   traffic_lat demo_passing = [22] \<and> traffic_long demo_passing = [113] \<and>
   traffic_heading demo_passing = [0]"
  by (simp add: demo_passing_def demo_traffic_def demo_ap_value)

lemma demo_passing_legs:
  "map_sum id (\<lambda>a. (lat a, long a, lat_next a, long_next a, lateral_mode a, hv_next_wp a))
     (track_legs (traffic_ap demo_passing) [0..<length (flight_plan_index (traffic_ap demo_passing))])
   = Inr ([24], [115], [25], [116], [LNAV], [True])"
  by (simp add: demo_passing_def tick_defs)

theorem update_overwrites_dist_witness:
  "0 < length (flight_plan_index (traffic_ap demo_passing)) \<and>
   flight_plan_updated (traffic_ap demo_passing) = [False] \<and>
   dist_ap (traffic_ap demo_passing) = [3] \<and>
   flight_plan_index (traffic_ap demo_passing) = [2] \<and>
   holding (traffic_ap demo_passing) = [False] \<and>
   holding_info (traffic_ap demo_passing) = [[]] \<and>
   (\<exists>tr' ap1. update cal_demo unit_demo enum_demo demo_passing = Inr tr' \<and>
      track_legs (traffic_ap demo_passing)
        [0..<length (flight_plan_index (traffic_ap demo_passing))] = Inr ap1 \<and>
      lateral_mode ap1 ! 0 = LNAV \<and>
      cal_great_circle_dist cal_demo (traffic_lat demo_passing ! 0) (traffic_long demo_passing ! 0)
        (lat ap1 ! 0) (long ap1 ! 0) = 4 \<and>
      \<bar>cal_angle_diff cal_demo (traffic_heading demo_passing ! 0) (next_track_angle cal_demo ap1 0)\<bar> < 1 \<and>
      cal_great_circle_dist cal_demo (traffic_lat demo_passing ! 0) (traffic_long demo_passing ! 0)
        (lat_next ap1 ! 0) (long_next ap1 ! 0) = 6 \<and>
      dist_ap (traffic_ap tr') ! 0 = 6 \<and>
      flight_plan_updated (traffic_ap tr') ! 0 = False \<and>
      flight_plan_index (traffic_ap tr') ! 0 = 3)"
proof -
  note st = demo_passing_state
  from demo_passing_tick obtain tr' where
    r: "update cal_demo unit_demo enum_demo demo_passing = Inr tr'"
    by (cases "update cal_demo unit_demo enum_demo demo_passing") auto
  have l: "0 < length (flight_plan_index (traffic_ap demo_passing))"
    by (simp add: st)
  from update_overwrites_dist[OF r l] obtain ap1 where
    t: "track_legs (traffic_ap demo_passing)
          [0..<length (flight_plan_index (traffic_ap demo_passing))] = Inr ap1" and
    c: "(let fresh = cal_great_circle_dist cal_demo (traffic_lat demo_passing ! 0)
                       (traffic_long demo_passing ! 0) (lat ap1 ! 0) (long ap1 ! 0);
          baseline = (if flight_plan_updated (traffic_ap demo_passing) ! 0 then fresh
                      else dist_ap (traffic_ap demo_passing) ! 0);
          advance = (lateral_mode ap1 ! 0 = LNAV \<and> fresh > baseline \<and>
                     \<bar>cal_angle_diff cal_demo (traffic_heading demo_passing ! 0)
                        (next_track_angle cal_demo ap1 0)\<bar> < 1)
      in dist_ap (traffic_ap tr') ! 0 =
           (if advance
            then cal_great_circle_dist cal_demo (traffic_lat demo_passing ! 0)
                   (traffic_long demo_passing ! 0) (lat_next ap1 ! 0) (long_next ap1 ! 0)
            else fresh) \<and>
         (flight_plan_updated (traffic_ap demo_passing) ! 0 \<longrightarrow>
            dist_ap (traffic_ap tr') ! 0 = fresh) \<and>
         flight_plan_updated (traffic_ap tr') ! 0 = False \<and>
         (0 < length (holding (traffic_ap demo_passing)) \<and>
          holding (traffic_ap demo_passing) ! 0 = False \<and>
          0 < length (holding_info (traffic_ap demo_passing)) \<and>
          holding_info (traffic_ap demo_passing) ! 0 = [] \<longrightarrow>
            flight_plan_index (traffic_ap tr') ! 0 =
              (if advance then flight_plan_index (traffic_ap demo_passing) ! 0 + 1
               else flight_plan_index (traffic_ap demo_passing) ! 0)))"
    by blast
  from demo_passing_legs t have
    a: "lat ap1 = [24]" "long ap1 = [115]" "lat_next ap1 = [25]" "long_next ap1 = [116]"
       "lateral_mode ap1 = [LNAV]" "hv_next_wp ap1 = [True]"
    by simp_all
  have m: "lateral_mode ap1 ! 0 = LNAV" by (simp add: a)
  have f: "cal_great_circle_dist cal_demo (traffic_lat demo_passing ! 0)
             (traffic_long demo_passing ! 0) (lat ap1 ! 0) (long ap1 ! 0) = 4"
    by (simp add: a st cal_demo_def)
  have n: "cal_great_circle_dist cal_demo (traffic_lat demo_passing ! 0)
             (traffic_long demo_passing ! 0) (lat_next ap1 ! 0) (long_next ap1 ! 0) = 6"
    by (simp add: a st cal_demo_def)
  have h: "\<bar>cal_angle_diff cal_demo (traffic_heading demo_passing ! 0)
             (next_track_angle cal_demo ap1 0)\<bar> < 1"
    by (simp add: a st cal_demo_def next_track_angle_def)
  from c m f n h have
    d: "dist_ap (traffic_ap tr') ! 0 = 6" and
    g: "flight_plan_updated (traffic_ap tr') ! 0 = False" and
    p: "flight_plan_index (traffic_ap tr') ! 0 = 3"
    by (simp_all add: Let_def st)
  from l st r t m f h n d g p show ?thesis by blast
qed

text \<open>
  The claim as stated fails. The second example: an aircraft in LNAV on the way to
  PRAWN, flag clear, cached distance 5, fresh distance 4, no holding. The
  waypoint-advance condition does not hold (the leg pointer stays 2), yet the tick
  replaces the cached distance by 4.
\<close>

lemma demo_enroute_state:
  "flight_plan_updated (traffic_ap demo_enroute) = [False] \<and>
   dist_ap (traffic_ap demo_enroute) = [5] \<and>
   flight_plan_index (traffic_ap demo_enroute) = [2] \<and>
   holding (traffic_ap demo_enroute) = [False] \<and>
   holding_info (traffic_ap demo_enroute) = [[]]"
  by (simp add: demo_enroute_def demo_traffic_def demo_ap_value)

theorem update_overwrites_dist_counterexample:
  "flight_plan_updated (traffic_ap demo_enroute) = [False] \<and>
   dist_ap (traffic_ap demo_enroute) = [5] \<and>
   flight_plan_index (traffic_ap demo_enroute) = [2] \<and>
   holding (traffic_ap demo_enroute) = [False] \<and>
   holding_info (traffic_ap demo_enroute) = [[]] \<and>
   (\<exists>tr'. update cal_demo unit_demo enum_demo demo_enroute = Inr tr' \<and>
      flight_plan_index (traffic_ap tr') = [2] \<and>
      dist_ap (traffic_ap tr') = [4])"
proof -
  from demo_tick have "\<exists>tr'. update cal_demo unit_demo enum_demo demo_enroute = Inr tr' \<and>
      flight_plan_index (traffic_ap tr') = [2] \<and> dist_ap (traffic_ap tr') = [4]"
    by (cases "update cal_demo unit_demo enum_demo demo_enroute") auto
  with demo_enroute_state show ?thesis by blast
qed

text \<open>
  The other statements of the tick on the second example: the procedural speed 250
  becomes the target speed, the Mach target follows from it, the aircraft is to
  accelerate and to climb, and without wind the heading is the track angle.
\<close>

lemma demo_tick_targets:
  "map_sum id (\<lambda>t. (cas (traffic_ap t), mach (traffic_ap t), speed_mode (traffic_ap t),
       procedure_speed (traffic_ap t), track_angle (traffic_ap t), heading (traffic_ap t),
       traffic_vertical_mode t))
     (update cal_demo unit_demo enum_demo demo_enroute)
   = Inr ([250], [5 / 12], [3], [250], [0], [0], [2])"
  by (simp add: demo_enroute_def tick_defs)

text \<open>
  The holding loop on the third example, the aircraft of the second with a holding
  definition for PORPA cached: its heading 0 is within 90 degrees of the inbound
  course 70 and the leg pointer 2 is past PORPA at position 1, so the tick turns it to
  the reciprocal heading 250, takes one round off, sets the leg pointer back to 1 and
  the lateral mode to HEADING, and marks it as holding.
\<close>

lemma demo_hold_tick:
  "map_sum id (\<lambda>t. (dist_ap (traffic_ap t), flight_plan_index (traffic_ap t),
       holding (traffic_ap t), lateral_mode (traffic_ap t), holding_round (traffic_ap t),
       heading (traffic_ap t)))
     (update cal_demo unit_demo enum_demo demo_hold)
   = Inr ([4], [1], [True], [HEADING], [1], [250])"
  by (simp add: demo_hold_def tick_defs)

section \<open>The parallel arrays under add and delete\<close>

text \<open>The appends of \<open>add_aircraft\<close> add one entry to every array and list.\<close>

lemma append_slot_lengths:
  "array_lengths (append_slot ap lat0 long0 alt0 heading0 cas0 dep_airport dep_runway sid0
      arr_airport arr_runway star0 approach0 cruise) = map Suc (array_lengths ap)"
  by (simp add: array_lengths_def append_slot_def)

text \<open>
  \<open>set_flight_plan\<close> stores into the arrays and rebuilds the lists of one slot: it keeps
  the length of every array. So \<open>add_aircraft\<close>, when it returns, has added exactly
  one entry to each.
\<close>

lemma py_set_length: "py_set xs i v = Inr ys \<Longrightarrow> length ys = length xs"
  by (auto simp: py_set_def then_do_def py_index_def split: if_splits)

lemma upd_at_length: "upd_at xss i f = Inr yss \<Longrightarrow> length yss = length xss"
  by (auto simp: upd_at_def elim!: then_do_frame dest: py_set_length)

lemma fp_reset_lengths:
  "fp_reset ap index dep_airport dep_runway sid0 arr_airport arr_runway star0 approach0
     fplan fp_index cruise = Inr ap' \<Longrightarrow> array_lengths ap' = array_lengths ap"
  unfolding fp_reset_def
  by (auto simp: array_lengths_def elim!: then_do_frame dest!: py_set_length)

lemma engage_lnav_lengths: "engage_lnav ap index = Inr ap' \<Longrightarrow> array_lengths ap' = array_lengths ap"
  unfolding engage_lnav_def
  by (auto simp: array_lengths_def elim!: then_do_frame dest!: py_set_length)

lemma extend_plan_lengths:
  "extend_plan ap index ws alts speeds = Inr ap' \<Longrightarrow> array_lengths ap' = array_lengths ap"
  unfolding extend_plan_def
  by (auto simp: array_lengths_def elim!: then_do_frame dest!: upd_at_length)

lemma pop_plan_lengths: "pop_plan ap index = Inr ap' \<Longrightarrow> array_lengths ap' = array_lengths ap"
  unfolding pop_plan_def
  by (auto simp: array_lengths_def elim!: then_do_frame dest!: upd_at_length)

lemma append_leg_lengths:
  "append_leg ap index nm la lo al sp = Inr ap' \<Longrightarrow> array_lengths ap' = array_lengths ap"
  unfolding append_leg_def
  by (auto simp: array_lengths_def elim!: then_do_frame dest!: upd_at_length)

lemma fp_add_sid_lengths:
  assumes "fp_add_sid nv ap index dep_airport dep_runway sid0 = Inr ap'"
  shows "array_lengths ap' = array_lengths ap"
proof -
  from assms have "ap' = ap \<or> (\<exists>ws alts speeds ap1.
      extend_plan ap index ws alts speeds = Inr ap1 \<and> engage_lnav ap1 index = Inr ap')"
    by (auto simp: fp_add_sid_def then_do_Inr split: if_splits)
  then show ?thesis
  proof
    assume "ap' = ap"
    then show ?thesis by simp
  next
    assume "\<exists>ws alts speeds ap1.
      extend_plan ap index ws alts speeds = Inr ap1 \<and> engage_lnav ap1 index = Inr ap'"
    then obtain ws alts speeds ap1 where
      e: "extend_plan ap index ws alts speeds = Inr ap1" and n: "engage_lnav ap1 index = Inr ap'"
      by blast
    from extend_plan_lengths[OF e] engage_lnav_lengths[OF n] show ?thesis by simp
  qed
qed

lemma fp_add_star_lengths:
  assumes "fp_add_star nv ap index arr_airport arr_runway star0 = Inr ap'"
  shows "array_lengths ap' = array_lengths ap"
proof -
  from assms have "ap' = ap \<or> (\<exists>ws alts speeds ap1.
      extend_plan ap index ws alts speeds = Inr ap1 \<and> engage_lnav ap1 index = Inr ap')"
    by (auto simp: fp_add_star_def then_do_Inr split: if_splits)
  then show ?thesis
  proof
    assume "ap' = ap"
    then show ?thesis by simp
  next
    assume "\<exists>ws alts speeds ap1.
      extend_plan ap index ws alts speeds = Inr ap1 \<and> engage_lnav ap1 index = Inr ap'"
    then obtain ws alts speeds ap1 where
      e: "extend_plan ap index ws alts speeds = Inr ap1" and n: "engage_lnav ap1 index = Inr ap'"
      by blast
    from extend_plan_lengths[OF e] engage_lnav_lengths[OF n] show ?thesis by simp
  qed
qed

lemma fp_add_enroute_lengths:
  assumes "fp_add_enroute ap index fplan cruise = Inr ap'"
  shows "array_lengths ap' = array_lengths ap"
proof (cases "fplan = []")
  case True
  with assms show ?thesis by (simp add: fp_add_enroute_def)
next
  case False
  with assms obtain nm al sp where
    nm: "upd_at (flight_plan_name ap) index (\<lambda>xs. Inr (xs @ fplan)) = Inr nm" and
    al: "length al = length (flight_plan_target_alt ap)" and
    sp: "upd_at (flight_plan_target_speed ap) index (\<lambda>xs. Inr (xs @ map (\<lambda>_. - 1) fplan)) = Inr sp" and
    e: "engage_lnav (ap\<lparr>flight_plan_name := nm, flight_plan_target_alt := al,
                           flight_plan_target_speed := sp\<rparr>) index = Inr ap'"
    unfolding fp_add_enroute_def
    by (auto split: if_splits elim!: then_do_frame dest: upd_at_length)
  from engage_lnav_lengths[OF e] upd_at_length[OF nm] upd_at_length[OF sp] al
  show ?thesis by (simp add: array_lengths_def)
qed

lemma fp_add_approach_lengths:
  assumes "fp_add_approach nv ap index arr_airport arr_runway approach0 = Inr ap'"
  shows "array_lengths ap' = array_lengths ap"
proof (cases "approach0 = []")
  case True
  with assms show ?thesis by (simp add: fp_add_approach_def)
next
  case False
  with assms have "\<exists>(p :: procedure) (q :: procedure) ap2.
       (if length (waypoint p) > 0 then
             then_do (pop_plan ap index) (\<lambda>ap1.
               if length (remdups (waypoint p)) = 1
               then extend_plan ap1 index (take 1 (waypoint p)) (take 1 (alt_restriction p))
                      (take 1 (speed_restriction p))
               else extend_plan ap1 index (waypoint p) (alt_restriction p) (speed_restriction p))
           else Inr ap) = Inr ap2 \<and>
       (if length (waypoint q) > 0 then
            then_do (pop_plan ap2 index) (\<lambda>ap3.
            then_do (extend_plan ap3 index (waypoint q) (alt_restriction q) (speed_restriction q))
              (\<lambda>ap4. engage_lnav ap4 index))
          else Inr ap2) = Inr ap'"
    unfolding fp_add_approach_def
    by (simp only: not_False_eq_True if_True) (elim then_do_frame, intro exI conjI, assumption+)
  then obtain p :: procedure and q :: procedure and ap2 where
    s1: "(if length (waypoint p) > 0 then
             then_do (pop_plan ap index) (\<lambda>ap1.
               if length (remdups (waypoint p)) = 1
               then extend_plan ap1 index (take 1 (waypoint p)) (take 1 (alt_restriction p))
                      (take 1 (speed_restriction p))
               else extend_plan ap1 index (waypoint p) (alt_restriction p) (speed_restriction p))
           else Inr ap) = Inr ap2" and
    s2: "(if length (waypoint q) > 0 then
            then_do (pop_plan ap2 index) (\<lambda>ap3.
            then_do (extend_plan ap3 index (waypoint q) (alt_restriction q) (speed_restriction q))
              (\<lambda>ap4. engage_lnav ap4 index))
          else Inr ap2) = Inr ap'"
    by blast
  have a: "array_lengths ap2 = array_lengths ap"
  proof (cases "length (waypoint p) > 0")
    case False
    with s1 show ?thesis by simp
  next
    case True
    with s1 obtain ap1 where
      pp: "pop_plan ap index = Inr ap1" and
      ex: "\<exists>ws alts speeds. extend_plan ap1 index ws alts speeds = Inr ap2"
      by (auto simp: then_do_Inr split: if_splits)
    from ex obtain ws alts speeds where "extend_plan ap1 index ws alts speeds = Inr ap2"
      by blast
    from extend_plan_lengths[OF this] pop_plan_lengths[OF pp] show ?thesis by simp
  qed
  have b: "array_lengths ap' = array_lengths ap2"
  proof (cases "length (waypoint q) > 0")
    case False
    with s2 show ?thesis by simp
  next
    case True
    with s2 obtain ap3 ap4 where
      pp: "pop_plan ap2 index = Inr ap3" and
      ex: "extend_plan ap3 index (waypoint q) (alt_restriction q) (speed_restriction q) = Inr ap4" and
      en: "engage_lnav ap4 index = Inr ap'"
      by (auto simp: then_do_Inr)
    from pop_plan_lengths[OF pp] extend_plan_lengths[OF ex] engage_lnav_lengths[OF en]
    show ?thesis by simp
  qed
  from a b show ?thesis by simp
qed

lemma fp_resolve_coords_lengths:
  "fp_resolve_coords nv ap index = Inr ap' \<Longrightarrow> array_lengths ap' = array_lengths ap"
  unfolding fp_resolve_coords_def
  by (auto simp: array_lengths_def split: if_splits prod.splits elim!: then_do_frame
      dest!: upd_at_length)

lemma fp_add_arrival_runway_lengths:
  "fp_add_arrival_runway nv ap index arr_airport arr_runway = Inr ap' \<Longrightarrow>
     array_lengths ap' = array_lengths ap"
  unfolding fp_add_arrival_runway_def
  by (auto simp: array_lengths_def split: if_splits prod.splits elim!: then_do_frame
      dest!: upd_at_length append_leg_lengths)

lemma fp_backfill_alt_lengths:
  "fp_backfill_alt ap index = Inr ap' \<Longrightarrow> array_lengths ap' = array_lengths ap"
  unfolding fp_backfill_alt_def
  by (auto simp: array_lengths_def split: if_splits elim!: then_do_frame dest!: upd_at_length)

lemma fp_add_departure_lengths:
  "fp_add_departure ap index a r la lo al = Inr ap' \<Longrightarrow> array_lengths ap' = array_lengths ap"
  unfolding fp_add_departure_def
  by (auto simp: array_lengths_def elim!: then_do_frame dest!: upd_at_length)

lemma set_flight_plan_lengths:
  assumes "set_flight_plan nv ap index dep_airport dep_runway sid0 arr_airport arr_runway star0
     approach0 fplan fp_index cruise = Inr ap'"
  shows "array_lengths ap' = array_lengths ap"
proof -
  from set_flight_plan_tail[OF assms] obtain th ap7 ap8 where
    asm: "fp_assemble nv ap index dep_airport dep_runway sid0 arr_airport arr_runway star0
       approach0 fplan fp_index cruise = Inr (th, ap7)" and
    bf: "fp_backfill_alt ap7 index = Inr ap8" and
    dep: "fp_add_departure ap8 index dep_airport dep_runway (fst th) (fst (snd th)) (snd (snd th))
            = Inr ap'"
    by auto
  from asm obtain ap1 ap2 ap3 ap4 ap5 ap6 where
    p: "fp_reset ap index dep_airport dep_runway sid0 arr_airport arr_runway star0
          approach0 fplan fp_index cruise = Inr ap1"
       "fp_add_sid nv ap1 index dep_airport dep_runway sid0 = Inr ap2"
       "fp_add_enroute ap2 index fplan cruise = Inr ap3"
       "fp_add_star nv ap3 index arr_airport arr_runway star0 = Inr ap4"
       "fp_add_approach nv ap4 index arr_airport arr_runway approach0 = Inr ap5"
       "fp_resolve_coords nv ap5 index = Inr ap6"
       "fp_add_arrival_runway nv ap6 index arr_airport arr_runway = Inr ap7"
    unfolding fp_assemble_def by (auto simp: then_do_Inr)
  from fp_reset_lengths[OF p(1)] fp_add_sid_lengths[OF p(2)] fp_add_enroute_lengths[OF p(3)]
    fp_add_star_lengths[OF p(4)] fp_add_approach_lengths[OF p(5)]
    fp_resolve_coords_lengths[OF p(6)] fp_add_arrival_runway_lengths[OF p(7)]
  have "array_lengths ap7 = array_lengths ap" by simp
  with fp_backfill_alt_lengths[OF bf] fp_add_departure_lengths[OF dep] show ?thesis by simp
qed

lemma add_aircraft_lengths:
  assumes "add_aircraft nv ap lat0 long0 alt0 heading0 cas0 dep_airport dep_runway sid0
     arr_airport arr_runway star0 approach0 fplan fp_index cruise = Inr ap'"
  shows "array_lengths ap' = map Suc (array_lengths ap)"
  using set_flight_plan_lengths[OF assms[unfolded add_aircraft_def]]
  by (simp add: append_slot_lengths)

lemma length_del_at: "in_range xs i \<Longrightarrow> Suc (length (del_at xs i)) = length xs"
  by (auto simp: in_range_def del_at_def py_del_def py_index_def then_do_def)

text \<open>
  \<open>del_aircraft\<close> removes one entry from the arrays it names and leaves \<open>cruise_alt\<close>
  as it is, one entry longer than the others from then on.
\<close>

lemma del_aircraft_cruise_alt:
  assumes "del_aircraft ap index = Inr ap'"
  shows "cruise_alt ap' = cruise_alt ap \<and> Suc (length (alt ap')) = length (alt ap) \<and>
         Suc (length (approach ap')) = length (approach ap) \<and>
         Suc (length (flight_plan_updated ap')) = length (flight_plan_updated ap)"
  using assms
  by (auto simp: del_aircraft_def length_del_at split: if_splits)

lemma demo_two_value:
  "demo_two =
     \<lparr>alt = [0, 0], heading = [70, 70], track_angle = [70, 70],
      ap_rate_of_turn = [0, 0], cas = [150, 150], mach = [0, 0], vs = [0, 0],
      fpa = [0, 0], lat = [22, 22], long = [113, 113], lat_next = [0, 0],
      long_next = [0, 0], lat_prev = [0, 0], long_prev = [0, 0],
      hv_next_wp = [True, True], dist_ap = [0, 0], flight_plan_index = [2, 1],
      flight_plan_enroute = [[], [''OCEAN'']],
      flight_plan_name =
        [[''VHHH RW07R'', ''PORPA'', ''PRAWN'', ''OCEAN''],
         [''VHHH RW07R'', ''OCEAN'']],
      flight_plan_lat = [[22, 23, 24, 25], [22, 23]],
      flight_plan_long = [[113, 114, 115, 116], [113, 114]],
      flight_plan_target_alt = [[28, 5000, 5000, 0], [28, 20000]],
      flight_plan_target_speed = [[0, - 1, 250, - 1], [0, - 1]],
      procedure_speed = [0, 0], speed_mode = [0, 0],
      auto_throttle_mode = [AUTO, AUTO], vertical_mode = [0, 0],
      lateral_mode = [LNAV, LNAV], expedite_descent = [False, False],
      departure_airport = [''VHHH'', ''VHHH''],
      departure_runway = [''RW07R'', ''RW07R''], sid = [''OCEAN2B'', []],
      arrival_airport = [[], []], arrival_runway = [[], []], star = [[], []],
      approach = [[], []], cruise_alt = [37000, 20000],
      flight_plan_updated = [True, True], holding = [False, False],
      holding_round = [0, 0], holding_info = [[], []]\<rparr>"
  by (simp add: demo_two_def demo_ap_value run_defs)

text \<open>
  C10 fails on the code. Two aircraft are added, with cruise altitudes 37000 and
  20000: every one of the 41 arrays has two entries. Deleting slot 0 leaves one entry
  in every array but one, \<open>cruise_alt\<close>, which \<open>del_aircraft\<close> does not touch: it keeps both entries,
  and the remaining aircraft, now at slot 0, finds the cruise altitude 37000 of the
  deleted one there.
\<close>

theorem del_aircraft_misses_cruise_alt:
  "set (array_lengths demo_two) = {2} \<and>
   cruise_alt demo_two = [37000, 20000] \<and>
   (\<exists>a. del_aircraft demo_two 0 = Inr a \<and>
      length (array_lengths a) = 41 \<and>
      filter (\<lambda>n. n \<noteq> 1) (array_lengths a) = [2] \<and>
      length (cruise_alt a) = 2 \<and>
      flight_plan_enroute a = [[''OCEAN'']] \<and>
      cruise_alt a = [37000, 20000] \<and>
      py_get (cruise_alt a) 0 = Inr 37000)"
  by (simp add: demo_two_value array_lengths_def del_aircraft_def in_range_def del_at_def
      py_del_def py_get_def py_index_def then_do_def)

end
